theory Spec2Isabelle
  imports Complex_Main "HOL-Library.Word"
begin

unbundle bit_operations_syntax

section \<open>JavaScript strings\<close>

text \<open>
  Strings are character lists. The case mappings below are those of
  \<^verbatim>\<open>String.prototype.toLowerCase\<close> and \<^verbatim>\<open>toUpperCase\<close> on ASCII text,
  which is what locale tags, HTTP methods and header values consist of; characters
  outside \<open>A-Z\<close>/\<open>a-z\<close> are left alone.
\<close>

definition lower_char :: "char \<Rightarrow> char" where
  "lower_char c = (let n = (of_char c :: nat) in if 65 \<le> n \<and> n \<le> 90 then char_of (n + 32) else c)"

definition upper_char :: "char \<Rightarrow> char" where
  "upper_char c = (let n = (of_char c :: nat) in if 97 \<le> n \<and> n \<le> 122 then char_of (n - 32) else c)"

definition toLowerCase :: "string \<Rightarrow> string" where
  "toLowerCase s = map lower_char s"

definition toUpperCase :: "string \<Rightarrow> string" where
  "toUpperCase s = map upper_char s"

text \<open>\<^verbatim>\<open>s.replace(/a/g, 'b')\<close> for single characters \<open>a\<close> and \<open>b\<close>.\<close>

definition replace_all :: "char \<Rightarrow> char \<Rightarrow> string \<Rightarrow> string" where
  "replace_all a b s = map (\<lambda>c. if c = a then b else c) s"

text \<open>
  \<^verbatim>\<open>s.split(sep)\<close> for a one-character separator: the pieces between the
  separators, empty pieces included, so there is always one piece more than there are
  separators (\<^verbatim>\<open>''.split('_')\<close> is \<^verbatim>\<open>['']\<close>).
\<close>

fun split :: "char \<Rightarrow> string \<Rightarrow> string list" where
  "split sep [] = [[]]"
| "split sep (c # cs) =
     (let ps = split sep cs in if c = sep then [] # ps else (c # hd ps) # tl ps)"

section \<open>Locale helpers (src/lib/locale-helpers.ts)\<close>

definition localeToSdkLocale :: "string \<Rightarrow> string" where
  "localeToSdkLocale locale =
     (let result = replace_all (CHR ''-'') (CHR ''_'') locale;
          parts = split (CHR ''_'') result
      in if length parts = 2 then
           toLowerCase (parts ! 0) @ ''_'' @ toUpperCase (parts ! 1)
         else if length parts = 3 then
           toLowerCase (parts ! 0) @ ''_'' @ parts ! 1 @ ''_'' @ toUpperCase (parts ! 2)
         else toLowerCase result)"

definition normalizeLocale :: "string \<Rightarrow> string" where
  "normalizeLocale locale = replace_all (CHR ''_'') (CHR ''-'') locale"

text \<open>A locale segment: a string with neither of the two separators in it.\<close>

definition sep_free :: "string \<Rightarrow> bool" where
  "sep_free s = (CHR ''-'' \<notin> set s \<and> CHR ''_'' \<notin> set s)"

section \<open>Bytes, hexadecimal and base64 (Node's Buffer)\<close>

text \<open>
  A string stands for its UTF-8 bytes, so \<^verbatim>\<open>update(s, 'utf8')\<close> and
  \<^verbatim>\<open>Buffer.from(s, 'utf8')\<close> read the characters as bytes.
\<close>

type_synonym byte = "8 word"

definition utf8 :: "string \<Rightarrow> byte list" where
  "utf8 s = map of_char s"

definition hex_digit :: "nat \<Rightarrow> char" where
  "hex_digit n = ''0123456789abcdef'' ! (n mod 16)"

text \<open>\<^verbatim>\<open>buf.toString('hex')\<close>: two lowercase hexadecimal digits for each byte.\<close>

definition toString_hex :: "byte list \<Rightarrow> string" where
  "toString_hex bs = concat (map (\<lambda>b. [hex_digit (unat b div 16), hex_digit (unat b)]) bs)"

definition base64_char :: "nat \<Rightarrow> char" where
  "base64_char n =
     ''ABCDEFGHIJKLMNOPQRSTUVWXYZabcdefghijklmnopqrstuvwxyz0123456789+/'' ! (n mod 64)"

text \<open>\<^verbatim>\<open>digest('base64')\<close>, \<^verbatim>\<open>buf.toString('base64')\<close>: RFC 4648 with padding.\<close>

fun toString_base64 :: "byte list \<Rightarrow> string" where
  "toString_base64 [] = []"
| "toString_base64 [a] =
     (let n = unat a * 16 in [base64_char (n div 64), base64_char n, CHR ''='', CHR ''=''])"
| "toString_base64 [a, b] =
     (let n = (unat a * 256 + unat b) * 4
      in [base64_char (n div 4096), base64_char (n div 64), base64_char n, CHR ''=''])"
| "toString_base64 (a # b # c # bs) =
     (let n = (unat a * 256 + unat b) * 256 + unat c
      in base64_char (n div 262144) # base64_char (n div 4096) # base64_char (n div 64)
           # base64_char n # toString_base64 bs)"

text \<open>
  The value of a base64 character. Node's decoder takes the URL-safe characters
  \<open>-\<close> and \<open>_\<close> as well.
\<close>

definition unbase64 :: "char \<Rightarrow> nat option" where
  "unbase64 c =
     (let n = (of_char c :: nat)
      in if 65 \<le> n \<and> n \<le> 90 then Some (n - 65)
         else if 97 \<le> n \<and> n \<le> 122 then Some (n - 71)
         else if 48 \<le> n \<and> n \<le> 57 then Some (n + 4)
         else if c = CHR ''+'' \<or> c = CHR ''-'' then Some 62
         else if c = CHR ''/'' \<or> c = CHR ''_'' then Some 63
         else None)"

fun decode_sextets :: "nat list \<Rightarrow> byte list" where
  "decode_sextets (a # b # c # d # r) =
     (let n = ((a * 64 + b) * 64 + c) * 64 + d
      in of_nat (n div 65536) # of_nat (n div 256) # of_nat n # decode_sextets r)"
| "decode_sextets [a, b, c] =
     (let n = ((a * 64 + b) * 64 + c) div 4 in [of_nat (n div 256), of_nat n])"
| "decode_sextets [a, b] = [of_nat ((a * 64 + b) div 16)]"
| "decode_sextets _ = []"

text \<open>
  \<^verbatim>\<open>Buffer.from(s, 'base64')\<close>. Node's decoder never throws: it stops at the first
  \<open>=\<close>, skips every character that is not a base64 character and decodes the
  sextets that are left, a trailing group of two or three giving one or two bytes.
\<close>

definition Buffer_from_base64 :: "string \<Rightarrow> byte list" where
  "Buffer_from_base64 s =
     decode_sextets (List.map_filter unbase64 (takeWhile (\<lambda>c. c \<noteq> CHR ''='') s))"

text \<open>
  Canonical base64 (RFC 4648, section 4): the text is what encoding its own decoding
  gives back.
\<close>

definition valid_base64 :: "string \<Rightarrow> bool" where
  "valid_base64 s = (toString_base64 (Buffer_from_base64 s) = s)"

text \<open>The decimal digits of a number, as a template literal prints an integer.\<close>

fun digits :: "nat \<Rightarrow> string" where
  "digits n = (if n < 10 then [hex_digit n] else digits (n div 10) @ [hex_digit (n mod 10)])"

declare digits.simps [simp del]

definition decimal :: "int \<Rightarrow> string" where
  "decimal i = (if i < 0 then CHR ''-'' # digits (nat (- i)) else digits (nat i))"

section \<open>MD5, SHA-256 and HMAC (Node's crypto module)\<close>

text \<open>
  The digests that \<^verbatim>\<open>createHash('md5')\<close> and \<^verbatim>\<open>createHmac('sha256', key)\<close>
  compute: RFC 1321, FIPS 180-4 and RFC 2104, on byte lists.
\<close>

type_synonym u32 = "32 word"

function chunks :: "nat \<Rightarrow> 'a list \<Rightarrow> 'a list list" where
  "chunks n xs = (if n = 0 \<or> xs = [] then [] else take n xs # chunks n (drop n xs))"
  by pat_completeness auto
termination
  by (relation "measure (\<lambda>(n, xs). length xs)") auto

declare chunks.simps [simp del]

definition le32 :: "byte list \<Rightarrow> u32" where
  "le32 bs = foldr (\<lambda>b w. ucast b + 256 * w) bs 0"

definition be32 :: "byte list \<Rightarrow> u32" where
  "be32 bs = foldl (\<lambda>w b. 256 * w + ucast b) 0 bs"

definition bytes_le :: "nat \<Rightarrow> nat \<Rightarrow> byte list" where
  "bytes_le k n = map (\<lambda>i. of_nat (n div 256 ^ i)) [0..<k]"

definition bytes_be :: "nat \<Rightarrow> nat \<Rightarrow> byte list" where
  "bytes_be k n = rev (bytes_le k n)"

text \<open>
  Padding to a multiple of 64 bytes: a \<open>0x80\<close> byte, zero bytes, and the length of the
  message in bits as a 64-bit number, whose byte order the hash fixes.
\<close>

definition pad64 :: "(nat \<Rightarrow> nat \<Rightarrow> byte list) \<Rightarrow> byte list \<Rightarrow> byte list" where
  "pad64 len bs =
     bs @ 0x80 # replicate ((119 - length bs mod 64) mod 64) 0 @ len 8 (8 * length bs)"

text \<open>Rotation of a 32-bit word to the left and to the right.\<close>

definition rotl32 :: "nat \<Rightarrow> u32 \<Rightarrow> u32" where
  "rotl32 n w = push_bit n w OR drop_bit (32 - n) w"

definition rotr32 :: "nat \<Rightarrow> u32 \<Rightarrow> u32" where
  "rotr32 n w = drop_bit n w OR push_bit (32 - n) w"

definition md5_K :: "u32 list" where
  "md5_K =
     [0xD76AA478, 0xE8C7B756, 0x242070DB, 0xC1BDCEEE, 0xF57C0FAF, 0x4787C62A, 0xA8304613, 0xFD469501,
      0x698098D8, 0x8B44F7AF, 0xFFFF5BB1, 0x895CD7BE, 0x6B901122, 0xFD987193, 0xA679438E, 0x49B40821,
      0xF61E2562, 0xC040B340, 0x265E5A51, 0xE9B6C7AA, 0xD62F105D, 0x02441453, 0xD8A1E681, 0xE7D3FBC8,
      0x21E1CDE6, 0xC33707D6, 0xF4D50D87, 0x455A14ED, 0xA9E3E905, 0xFCEFA3F8, 0x676F02D9, 0x8D2A4C8A,
      0xFFFA3942, 0x8771F681, 0x6D9D6122, 0xFDE5380C, 0xA4BEEA44, 0x4BDECFA9, 0xF6BB4B60, 0xBEBFBC70,
      0x289B7EC6, 0xEAA127FA, 0xD4EF3085, 0x04881D05, 0xD9D4D039, 0xE6DB99E5, 0x1FA27CF8, 0xC4AC5665,
      0xF4292244, 0x432AFF97, 0xAB9423A7, 0xFC93A039, 0x655B59C3, 0x8F0CCC92, 0xFFEFF47D, 0x85845DD1,
      0x6FA87E4F, 0xFE2CE6E0, 0xA3014314, 0x4E0811A1, 0xF7537E82, 0xBD3AF235, 0x2AD7D2BB, 0xEB86D391]"

definition md5_shift :: "nat list" where
  "md5_shift =
     concat (map (\<lambda>r. r @ r @ r @ r)
       [[7, 12, 17, 22], [5, 9, 14, 20], [4, 11, 16, 23], [6, 10, 15, 21]])"

definition md5_round :: "u32 list \<Rightarrow> nat \<Rightarrow> u32 \<times> u32 \<times> u32 \<times> u32 \<Rightarrow> u32 \<times> u32 \<times> u32 \<times> u32" where
  "md5_round m i = (\<lambda>(a, b, c, d).
     let f = (if i < 16 then (b AND c) OR (NOT b AND d)
              else if i < 32 then (d AND b) OR (NOT d AND c)
              else if i < 48 then b XOR c XOR d
              else c XOR (b OR NOT d));
         g = (if i < 16 then i
              else if i < 32 then (5 * i + 1) mod 16
              else if i < 48 then (3 * i + 5) mod 16
              else (7 * i) mod 16)
     in (d, b + rotl32 (md5_shift ! i) (a + f + md5_K ! i + m ! g), b, c))"

definition md5_block :: "byte list \<Rightarrow> u32 \<times> u32 \<times> u32 \<times> u32 \<Rightarrow> u32 \<times> u32 \<times> u32 \<times> u32" where
  "md5_block blk = (\<lambda>(a0, b0, c0, d0).
     case fold (md5_round (map le32 (chunks 4 blk))) [0..<64] (a0, b0, c0, d0) of
       (a, b, c, d) \<Rightarrow> (a0 + a, b0 + b, c0 + c, d0 + d))"

definition md5 :: "byte list \<Rightarrow> byte list" where
  "md5 bs =
     (case fold md5_block (chunks 64 (pad64 bytes_le bs))
             (0x67452301, 0xEFCDAB89, 0x98BADCFE, 0x10325476) of
        (a, b, c, d) \<Rightarrow> concat (map (\<lambda>w. bytes_le 4 (unat w)) [a, b, c, d]))"

definition sha256_K :: "u32 list" where
  "sha256_K =
     [0x428A2F98, 0x71374491, 0xB5C0FBCF, 0xE9B5DBA5, 0x3956C25B, 0x59F111F1, 0x923F82A4, 0xAB1C5ED5,
      0xD807AA98, 0x12835B01, 0x243185BE, 0x550C7DC3, 0x72BE5D74, 0x80DEB1FE, 0x9BDC06A7, 0xC19BF174,
      0xE49B69C1, 0xEFBE4786, 0x0FC19DC6, 0x240CA1CC, 0x2DE92C6F, 0x4A7484AA, 0x5CB0A9DC, 0x76F988DA,
      0x983E5152, 0xA831C66D, 0xB00327C8, 0xBF597FC7, 0xC6E00BF3, 0xD5A79147, 0x06CA6351, 0x14292967,
      0x27B70A85, 0x2E1B2138, 0x4D2C6DFC, 0x53380D13, 0x650A7354, 0x766A0ABB, 0x81C2C92E, 0x92722C85,
      0xA2BFE8A1, 0xA81A664B, 0xC24B8B70, 0xC76C51A3, 0xD192E819, 0xD6990624, 0xF40E3585, 0x106AA070,
      0x19A4C116, 0x1E376C08, 0x2748774C, 0x34B0BCB5, 0x391C0CB3, 0x4ED8AA4A, 0x5B9CCA4F, 0x682E6FF3,
      0x748F82EE, 0x78A5636F, 0x84C87814, 0x8CC70208, 0x90BEFFFA, 0xA4506CEB, 0xBEF9A3F7, 0xC67178F2]"

definition sha256_schedule :: "byte list \<Rightarrow> u32 list" where
  "sha256_schedule blk =
     fold (\<lambda>i w. w @ [(rotr32 17 (w ! (i - 2)) XOR rotr32 19 (w ! (i - 2))
                          XOR drop_bit 10 (w ! (i - 2)))
                        + w ! (i - 7)
                        + (rotr32 7 (w ! (i - 15)) XOR rotr32 18 (w ! (i - 15))
                          XOR drop_bit 3 (w ! (i - 15)))
                        + w ! (i - 16)])
       [16..<64] (map be32 (chunks 4 blk))"

definition sha256_round :: "u32 list \<Rightarrow> nat \<Rightarrow> u32 list \<Rightarrow> u32 list" where
  "sha256_round w i s =
     (let a = s ! 0; b = s ! 1; c = s ! 2; d = s ! 3; e = s ! 4; f = s ! 5; g = s ! 6; h = s ! 7;
          t1 = h + (rotr32 6 e XOR rotr32 11 e XOR rotr32 25 e)
                 + ((e AND f) XOR (NOT e AND g)) + sha256_K ! i + w ! i;
          t2 = (rotr32 2 a XOR rotr32 13 a XOR rotr32 22 a)
                 + ((a AND b) XOR (a AND c) XOR (b AND c))
      in [t1 + t2, a, b, c, d + t1, e, f, g])"

definition sha256_block :: "byte list \<Rightarrow> u32 list \<Rightarrow> u32 list" where
  "sha256_block blk s = map2 (+) s (fold (sha256_round (sha256_schedule blk)) [0..<64] s)"

definition sha256 :: "byte list \<Rightarrow> byte list" where
  "sha256 bs =
     concat (map (\<lambda>w. bytes_be 4 (unat w))
       (fold sha256_block (chunks 64 (pad64 bytes_be bs))
          [0x6A09E667, 0xBB67AE85, 0x3C6EF372, 0xA54FF53A,
           0x510E527F, 0x9B05688C, 0x1F83D9AB, 0x5BE0CD19]))"

definition hmac_sha256 :: "byte list \<Rightarrow> byte list \<Rightarrow> byte list" where
  "hmac_sha256 key msg =
     (let k0 = (if 64 < length key then sha256 key else key);
          k = k0 @ replicate (64 - length k0) 0
      in sha256 (map (\<lambda>b. b XOR 0x5C) k @ sha256 (map (\<lambda>b. b XOR 0x36) k @ msg)))"

section \<open>JavaScript values and exceptions\<close>

text \<open>
  What a \<^verbatim>\<open>throw\<close> carries: an \<^verbatim>\<open>Error\<close> object with its message, or any other
  value (\<^verbatim>\<open>error instanceof Error\<close> is false for it). A computation that can throw, or
  a promise that can reject, returns \<open>js_exn + 'a\<close>.
\<close>

datatype js_exn = JsError string | NonError

text \<open>\<^verbatim>\<open>error instanceof Error ? error.message : fallback\<close>\<close>

definition message_or :: "string \<Rightarrow> js_exn \<Rightarrow> string" where
  "message_or fallback e = (case e of JsError m \<Rightarrow> m | NonError \<Rightarrow> fallback)"

text \<open>\<^verbatim>\<open>try { body } catch (error) { handler }\<close>\<close>

definition try_catch :: "js_exn + 'a \<Rightarrow> (js_exn \<Rightarrow> js_exn + 'a) \<Rightarrow> js_exn + 'a" where
  "try_catch body handler = (case body of Inl e \<Rightarrow> handler e | Inr v \<Rightarrow> Inr v)"

text \<open>
  The values of type \<^verbatim>\<open>any\<close> that the code reads: what \<^verbatim>\<open>JSON.parse\<close> returns, and
  \<^verbatim>\<open>undefined\<close>. A number is its exact value (every finite double is a rational);
  an object is its own properties in order, each name once.
\<close>

datatype jsval =
    JUndefined
  | JNull
  | JBool bool
  | JNum rat
  | JStr string
  | JArr "jsval list"
  | JObj "(string \<times> jsval) list"

definition nullish :: "jsval \<Rightarrow> bool" where
  "nullish v = (v = JUndefined \<or> v = JNull)"

fun truthy :: "jsval \<Rightarrow> bool" where
  "truthy JUndefined = False"
| "truthy JNull = False"
| "truthy (JBool b) = b"
| "truthy (JNum r) = (r \<noteq> 0)"
| "truthy (JStr s) = (s \<noteq> [])"
| "truthy (JArr xs) = True"
| "truthy (JObj kvs) = True"

text \<open>\<^verbatim>\<open>a || b\<close>\<close>

definition or_js :: "jsval \<Rightarrow> jsval \<Rightarrow> jsval" where
  "or_js a b = (if truthy a then a else b)"

text \<open>
  \<^verbatim>\<open>v.k\<close> for a value that is neither \<^verbatim>\<open>null\<close> nor \<^verbatim>\<open>undefined\<close>, and a property
  name \<open>k\<close> that no built-in prototype defines (all the names this code reads are such):
  an object gives its own property, anything else \<^verbatim>\<open>undefined\<close>.
\<close>

fun member :: "jsval \<Rightarrow> string \<Rightarrow> jsval" where
  "member (JObj kvs) k = (case map_of kvs k of None \<Rightarrow> JUndefined | Some v \<Rightarrow> v)"
| "member _ k = JUndefined"

text \<open>\<^verbatim>\<open>v?.k\<close>\<close>

definition opt :: "jsval \<Rightarrow> string \<Rightarrow> jsval" where
  "opt v k = (if nullish v then JUndefined else member v k)"

text \<open>
  \<^verbatim>\<open>v?.[0]\<close>: the first element of an array, the first character of a string, the
  property \<open>0\<close> of an object.
\<close>

fun opt_first :: "jsval \<Rightarrow> jsval" where
  "opt_first (JArr xs) = (case xs of [] \<Rightarrow> JUndefined | x # _ \<Rightarrow> x)"
| "opt_first (JStr s) = (case s of [] \<Rightarrow> JUndefined | c # _ \<Rightarrow> JStr [c])"
| "opt_first (JObj kvs) = member (JObj kvs) ''0''"
| "opt_first _ = JUndefined"

text \<open>The message of V8's TypeError for reading a property of null or undefined.\<close>

definition cannot_read :: "jsval \<Rightarrow> string \<Rightarrow> js_exn" where
  "cannot_read v k =
     JsError (''Cannot read properties of '' @ (if v = JNull then ''null'' else ''undefined'')
              @ '' (reading '' @ [CHR 0x27] @ k @ [CHR 0x27] @ '')'')"

text \<open>\<^verbatim>\<open>v.k\<close>, which throws when \<open>v\<close> is null or undefined.\<close>

definition get :: "jsval \<Rightarrow> string \<Rightarrow> js_exn + jsval" where
  "get v k = (if nullish v then Inl (cannot_read v k) else Inr (member v k))"

fun join :: "string \<Rightarrow> string list \<Rightarrow> string" where
  "join sep [] = []"
| "join sep [x] = x"
| "join sep (x # y # r) = x @ sep @ join sep (y # r)"

text \<open>
  \<^verbatim>\<open>String(v)\<close>, with the host's printing of numbers. An array prints its elements
  separated by commas, null and undefined elements as nothing.
\<close>

fun ToString :: "(rat \<Rightarrow> string) \<Rightarrow> jsval \<Rightarrow> string" where
  "ToString num JUndefined = ''undefined''"
| "ToString num JNull = ''null''"
| "ToString num (JBool b) = (if b then ''true'' else ''false'')"
| "ToString num (JNum r) = num r"
| "ToString num (JStr s) = s"
| "ToString num (JArr xs) =
     join '','' (map (\<lambda>x. if x = JUndefined \<or> x = JNull then [] else ToString num x) xs)"
| "ToString num (JObj kvs) = ''[object Object]''"

text \<open>\<^verbatim>\<open>xs.map(f)\<close> for an \<open>f\<close> that can throw: the first exception ends the loop.\<close>

fun map_throwing :: "('a \<Rightarrow> js_exn + 'b) \<Rightarrow> 'a list \<Rightarrow> js_exn + 'b list" where
  "map_throwing f [] = Inr []"
| "map_throwing f (x # xs) =
     (case f x of
        Inl e \<Rightarrow> Inl e
      | Inr y \<Rightarrow> (case map_throwing f xs of Inl e \<Rightarrow> Inl e | Inr ys \<Rightarrow> Inr (y # ys)))"

section \<open>The host: clock, random bytes, URL parser, network\<close>

text \<open>
  A parsed \<^verbatim>\<open>URL\<close> object: what stands before the path in \<^verbatim>\<open>href\<close> (scheme,
  credentials, host, port), the path, the query (null when there is none), the list of
  its name-value pairs behind \<^verbatim>\<open>searchParams\<close>, and the fragment.
\<close>

record URL =
  href_origin :: string
  pathname :: string
  query_string :: "string option"
  searchParams :: "(string \<times> string) list"
  fragment :: "string option"

text \<open>The getter \<^verbatim>\<open>url.search\<close>: empty for a null or empty query.\<close>

definition URL_search :: "URL \<Rightarrow> string" where
  "URL_search u = (case query_string u of None \<Rightarrow> [] | Some q \<Rightarrow> if q = [] then [] else CHR ''?'' # q)"

text \<open>\<^verbatim>\<open>url.toString()\<close>, the serialised URL.\<close>

definition URL_href :: "URL \<Rightarrow> string" where
  "URL_href u =
     href_origin u @ pathname u
       @ (case query_string u of None \<Rightarrow> [] | Some q \<Rightarrow> CHR ''?'' # q)
       @ (case fragment u of None \<Rightarrow> [] | Some f \<Rightarrow> CHR ''#'' # f)"

definition HEX_digit :: "nat \<Rightarrow> char" where
  "HEX_digit n = ''0123456789ABCDEF'' ! (n mod 16)"

text \<open>
  The application/x-www-form-urlencoded serialiser of \<^verbatim>\<open>URLSearchParams\<close>: letters,
  digits and \<open>* - . _\<close> stay, a space becomes \<open>+\<close>, every other byte is
  percent-encoded.
\<close>

definition urlencode_char :: "char \<Rightarrow> string" where
  "urlencode_char c =
     (let n = (of_char c :: nat)
      in if (48 \<le> n \<and> n \<le> 57) \<or> (65 \<le> n \<and> n \<le> 90) \<or> (97 \<le> n \<and> n \<le> 122)
            \<or> c \<in> set ''*-._'' then [c]
         else if c = CHR '' '' then ''+''
         else [CHR ''%'', HEX_digit (n div 16), HEX_digit n])"

definition urlencoded :: "(string \<times> string) list \<Rightarrow> string" where
  "urlencoded ps =
     join ''&'' (map (\<lambda>(k, v). concat (map urlencode_char k) @ ''='' @ concat (map urlencode_char v)) ps)"

text \<open>\<^verbatim>\<open>url.searchParams.append(k, v)\<close>: the pair is added and the query rewritten.\<close>

definition searchParams_append :: "string \<times> string \<Rightarrow> URL \<Rightarrow> URL" where
  "searchParams_append kv u =
     (let ps = searchParams u @ [kv]; q = urlencoded ps
      in u\<lparr>searchParams := ps, query_string := (if q = [] then None else Some q)\<rparr>)"

text \<open>The arguments of a call of \<^verbatim>\<open>fetch\<close>, and the response it resolves to.\<close>

record fetch_request =
  fetch_url :: string
  fetch_method :: string
  fetch_headers :: "(string \<times> string) list"
  fetch_body :: "string option"

record Response =
  status :: nat
  statusText :: string
  body_text :: "js_exn + string"
  body_json :: "js_exn + jsval"

text \<open>\<^verbatim>\<open>response.ok\<close>: the status is in the range 200 to 299.\<close>

definition ok :: "Response \<Rightarrow> bool" where
  "ok r = (200 \<le> status r \<and> status r \<le> 299)"

text \<open>
  What the code takes from its host: \<^verbatim>\<open>Date.now()\<close>, \<^verbatim>\<open>randomBytes(n)\<close>,
  \<^verbatim>\<open>new URL(input, base)\<close>, \<^verbatim>\<open>fetch\<close> and the printing of numbers.
\<close>

record host =
  Date_now :: int
  randomBytes :: "nat \<Rightarrow> byte list"
  new_URL :: "string \<Rightarrow> string \<Rightarrow> js_exn + URL"
  fetch :: "fetch_request \<Rightarrow> js_exn + Response"
  Number_toString :: "rat \<Rightarrow> string"

section \<open>Signed requests (utils/optimizely-hmac.ts)\<close>

record OptimizelyGraphConfig =
  gatewayUrl :: string
  appKey :: string
  secret :: string

record HmacAuthHeader =
  authorization :: string

text \<open>The string that is signed (\<^verbatim>\<open>signatureData\<close>).\<close>

definition signatureData ::
  "OptimizelyGraphConfig \<Rightarrow> string \<Rightarrow> string \<Rightarrow> int \<Rightarrow> string \<Rightarrow> string \<Rightarrow> string" where
  "signatureData config method path timestamp nonce bodyMd5 =
     appKey config @ method @ path @ decimal timestamp @ nonce @ bodyMd5"

text \<open>
  \<^verbatim>\<open>createHmacAuthHeader\<close>. Nothing in it throws: \<^verbatim>\<open>Buffer.from\<close> decodes any
  string, so there is no \<open>Inl\<close> branch.
\<close>

definition createHmacAuthHeader ::
  "host \<Rightarrow> OptimizelyGraphConfig \<Rightarrow> string \<Rightarrow> string \<Rightarrow> string \<Rightarrow> js_exn + HmacAuthHeader" where
  "createHmacAuthHeader H config method path body =
     (let timestamp = Date_now H;
          nonce = toString_hex (randomBytes H 16);
          bodyMd5 = toString_base64 (md5 (utf8 body));
          data = signatureData config method path timestamp nonce bodyMd5;
          secretBuffer = Buffer_from_base64 (secret config);
          base64hmac = toString_base64 (hmac_sha256 secretBuffer (utf8 data));
          authHeader = ''epi-hmac '' @ appKey config @ '':'' @ decimal timestamp @ '':'' @ nonce
                         @ '':'' @ base64hmac
      in Inr \<lparr>authorization = authHeader\<rparr>)"

text \<open>
  An object with string values, as the list of its properties in order. \<open>obj_set\<close> is
  the assignment \<^verbatim>\<open>o[k] = v\<close>; \<open>spread src obj\<close> is \<^verbatim>\<open>{...obj, ...src}\<close>.
\<close>

fun obj_set :: "string \<Rightarrow> string \<Rightarrow> (string \<times> string) list \<Rightarrow> (string \<times> string) list" where
  "obj_set k v [] = [(k, v)]"
| "obj_set k v ((k', v') # r) = (if k = k' then (k, v) # r else (k', v') # obj_set k v r)"

definition spread :: "(string \<times> string) list \<Rightarrow> (string \<times> string) list \<Rightarrow> (string \<times> string) list" where
  "spread src obj = fold (\<lambda>(k, v). obj_set k v) src obj"

record request_options =
  method' :: "string option"
  body :: "string option"
  headers :: "(string \<times> string) list option"
  queryParams :: "(string \<times> string) list option"

text \<open>
  \<^verbatim>\<open>makeOptimizelyGraphRequest\<close>. The result is what the promise settles to, together
  with the requests handed to \<^verbatim>\<open>fetch\<close>.
\<close>

definition makeOptimizelyGraphRequest ::
  "host \<Rightarrow> OptimizelyGraphConfig \<Rightarrow> string \<Rightarrow> request_options
     \<Rightarrow> (js_exn + Response) \<times> fetch_request list" where
  "makeOptimizelyGraphRequest H config endpoint options =
     (let method = (case method' options of None \<Rightarrow> ''GET'' | Some m \<Rightarrow> m);
          body = (case body options of None \<Rightarrow> [] | Some b \<Rightarrow> b);
          headers = (case headers options of None \<Rightarrow> [] | Some h \<Rightarrow> h);
          queryParams = (case queryParams options of None \<Rightarrow> [] | Some q \<Rightarrow> q)
      in case new_URL H endpoint (gatewayUrl config) of
           Inl e \<Rightarrow> (Inl e, [])
         | Inr url0 \<Rightarrow>
             (let url = fold searchParams_append queryParams url0;
                  pathWithQuery = pathname url @ URL_search url
              in case createHmacAuthHeader H config method pathWithQuery body of
                   Inl e \<Rightarrow> (Inl e, [])
                 | Inr authHeader \<Rightarrow>
                     (let request = \<lparr>fetch_url = URL_href url,
                                     fetch_method = method,
                                     fetch_headers =
                                       spread [(''authorization'', authorization authHeader)]
                                         (spread headers [(''Content-Type'', ''text/plain'')]),
                                     fetch_body = (if method \<noteq> ''GET'' then Some body else None)\<rparr>
                      in (fetch H request, [request]))))"

record upload_options =
  synonymSlot :: "string option"
  languageRouting :: "string option"

record upload_result =
  success :: bool
  message :: string
  error :: "string option"

definition uploadSynonyms ::
  "host \<Rightarrow> OptimizelyGraphConfig \<Rightarrow> string \<Rightarrow> upload_options
     \<Rightarrow> (js_exn + upload_result) \<times> fetch_request list" where
  "uploadSynonyms H config synonyms options =
     (let synonymSlot = (case synonymSlot options of None \<Rightarrow> ''1'' | Some s \<Rightarrow> s);
          languageRouting = (case languageRouting options of None \<Rightarrow> ''standard'' | Some l \<Rightarrow> l);
          call = makeOptimizelyGraphRequest H config ''/resources/synonyms''
                   \<lparr>method' = Some ''PUT'', body = Some synonyms, headers = None,
                    queryParams = Some [(''synonym_slot'', synonymSlot),
                                        (''language_routing'', languageRouting)]\<rparr>
      in (try_catch
            (case fst call of
               Inl e \<Rightarrow> Inl e
             | Inr response \<Rightarrow>
                 if ok response then
                   Inr \<lparr>success = True,
                        message = ''Synonyms successfully uploaded to slot '' @ synonymSlot
                                    @ '' for language routing: '' @ languageRouting,
                        error = None\<rparr>
                 else
                   (case body_text response of
                      Inl e \<Rightarrow> Inl e
                    | Inr errorText \<Rightarrow>
                        Inr \<lparr>success = False,
                             message = ''Failed to upload synonyms'',
                             error = Some (decimal (int (status response)) @ '' ''
                                           @ statusText response @ '' - '' @ errorText)\<rparr>))
            (\<lambda>e. Inr \<lparr>success = False, message = ''Network error'',
                       error = Some (message_or ''Unknown error'' e)\<rparr>),
          snd call))"

text \<open>
  \<^verbatim>\<open>getOptimizelyGraphConfig\<close>, over the environment \<^verbatim>\<open>import.meta.env\<close>: a variable
  is a string or undefined.
\<close>

definition getOptimizelyGraphConfig :: "(string \<Rightarrow> string option) \<Rightarrow> js_exn + OptimizelyGraphConfig" where
  "getOptimizelyGraphConfig env =
     (let gatewayUrl = (case env ''OPTIMIZELY_GRAPH_GATEWAY_URL'' of
                          None \<Rightarrow> ''https://cg.optimizely.com''
                        | Some u \<Rightarrow> if u = [] then ''https://cg.optimizely.com'' else u);
          appKey = env ''OPTIMIZELY_GRAPH_APP_KEY'';
          secret = env ''OPTIMIZELY_GRAPH_SECRET''
      in case (appKey, secret) of
           (Some k, Some s) \<Rightarrow>
             if k = [] \<or> s = [] then
               Inl (JsError ''Missing required environment variables: OPTIMIZELY_GRAPH_APP_KEY and OPTIMIZELY_GRAPH_SECRET'')
             else Inr \<lparr>gatewayUrl = gatewayUrl, appKey = k, secret = s\<rparr>
         | _ \<Rightarrow>
             Inl (JsError ''Missing required environment variables: OPTIMIZELY_GRAPH_APP_KEY and OPTIMIZELY_GRAPH_SECRET''))"

section \<open>Content search (utils/optimizely-graph-utils.ts)\<close>

definition json_escape :: "char \<Rightarrow> string" where
  "json_escape c =
     (let n = (of_char c :: nat)
      in if n = 0x22 \<or> n = 0x5C then [CHR 0x5C, c]
         else if n = 8 then [CHR 0x5C, CHR ''b'']
         else if n = 9 then [CHR 0x5C, CHR ''t'']
         else if n = 10 then [CHR 0x5C, CHR ''n'']
         else if n = 12 then [CHR 0x5C, CHR ''f'']
         else if n = 13 then [CHR 0x5C, CHR ''r'']
         else if n < 32 then [CHR 0x5C, CHR ''u'', CHR ''0'', CHR ''0'', hex_digit (n div 16), hex_digit n]
         else [c])"

definition json_quote :: "string \<Rightarrow> string" where
  "json_quote s = CHR 0x22 # concat (map json_escape s) @ [CHR 0x22]"

text \<open>
  \<^verbatim>\<open>JSON.stringify(v)\<close>, \<open>None\<close> for \<^verbatim>\<open>undefined\<close>: an undefined element of an
  array is written \<open>null\<close>, an undefined property is left out.
\<close>

fun JSON_stringify :: "(rat \<Rightarrow> string) \<Rightarrow> jsval \<Rightarrow> string option" where
  "JSON_stringify num JUndefined = None"
| "JSON_stringify num JNull = Some ''null''"
| "JSON_stringify num (JBool b) = Some (if b then ''true'' else ''false'')"
| "JSON_stringify num (JNum r) = Some (num r)"
| "JSON_stringify num (JStr s) = Some (json_quote s)"
| "JSON_stringify num (JArr xs) =
     Some (''['' @ join '','' (map (\<lambda>x. case JSON_stringify num x of None \<Rightarrow> ''null'' | Some t \<Rightarrow> t) xs)
           @ '']'')"
| "JSON_stringify num (JObj kvs) =
     Some (''{'' @ join '',''
             (concat (map (\<lambda>kv. case JSON_stringify num (snd kv) of
                                   None \<Rightarrow> []
                                 | Some t \<Rightarrow> [json_quote (fst kv) @ '':'' @ t]) kvs))
           @ ''}'')"

text \<open>\<^verbatim>\<open>makeGraphQLRequest\<close>\<close>

definition makeGraphQLRequest ::
  "host \<Rightarrow> OptimizelyGraphConfig \<Rightarrow> string \<Rightarrow> jsval \<Rightarrow> (js_exn + Response) \<times> fetch_request list" where
  "makeGraphQLRequest H config query variables =
     (let payload = JObj [(''query'', JStr query), (''variables'', or_js variables (JObj []))]
      in makeOptimizelyGraphRequest H config ''/content/v2''
           \<lparr>method' = Some ''POST'',
            body = JSON_stringify (Number_toString H) payload,
            headers = Some [(''Content-Type'', ''application/json'')],
            queryParams = None\<rparr>)"

record content_item =
  guid :: jsval
  name :: jsval
  contentType :: jsval
  item_status :: jsval
  language :: jsval
  url :: jsval
  score :: jsval
  modified :: jsval
  item_id :: jsval

text \<open>
  \<^verbatim>\<open>transformContentItem\<close>. \<^verbatim>\<open>item.Url\<close> is the first property read and throws for
  an item that is null or undefined; after it no read can throw, and the exception of
  \<^verbatim>\<open>new URL\<close> is caught inside.
\<close>

definition transformContentItem :: "host \<Rightarrow> jsval \<Rightarrow> js_exn + content_item" where
  "transformContentItem H item =
     (case get item ''Url'' of
        Inl e \<Rightarrow> Inl e
      | Inr Url \<Rightarrow>
          (let metadata = member item ''_metadata'';
               url_default = opt (opt metadata ''url'') ''default'';
               url_base = opt (opt metadata ''url'') ''base'';
               finalUrl = or_js Url url_default;
               finalUrl =
                 (if truthy url_base \<and> truthy url_default then
                    (case new_URL H (ToString (Number_toString H) url_default)
                                    (ToString (Number_toString H) url_base) of
                       Inl e \<Rightarrow> finalUrl
                     | Inr u \<Rightarrow> JStr (URL_href u))
                  else finalUrl)
           in Inr \<lparr>guid = or_js (or_js (opt metadata ''key'') (member item ''_id''))
                                 (opt (member item ''ContentLink'') ''GuidValue''),
                   name = or_js (or_js (or_js (member item ''Name'') (member item ''PageName''))
                                       (opt metadata ''displayName''))
                                (JStr ''Untitled''),
                   contentType = or_js (or_js (opt_first (member item ''ContentType''))
                                              (opt_first (opt metadata ''types'')))
                                       (JStr ''Unknown''),
                   item_status = member item ''Status'',
                   language = or_js (or_js (opt (member item ''Language'') ''Name'')
                                           (opt metadata ''locale''))
                                    (JStr ''Unknown''),
                   url = finalUrl,
                   score = opt (member item ''_ranking'') ''semantic'',
                   modified = member item ''Modified'',
                   item_id = member item ''_id''\<rparr>))"

record search_result =
  items :: "content_item list"
  search_error :: "string option"

text \<open>\<^verbatim>\<open>xs.join(sep)\<close> on an array of values.\<close>

definition Array_join :: "(rat \<Rightarrow> string) \<Rightarrow> string \<Rightarrow> jsval list \<Rightarrow> string" where
  "Array_join num sep xs = join sep (map (\<lambda>x. if nullish x then [] else ToString num x) xs)"

text \<open>
  \<^verbatim>\<open>searchContent\<close>. Calling \<^verbatim>\<open>map\<close> on a value that is not an array throws a
  TypeError.
\<close>

definition searchContent ::
  "host \<Rightarrow> OptimizelyGraphConfig \<Rightarrow> string \<Rightarrow> jsval \<Rightarrow> (js_exn + search_result) \<times> fetch_request list" where
  "searchContent H config query variables =
     (let call = makeGraphQLRequest H config query variables
      in (try_catch
            (case fst call of
               Inl e \<Rightarrow> Inl e
             | Inr response \<Rightarrow>
                 if \<not> ok response then
                   (case body_text response of
                      Inl e \<Rightarrow> Inl e
                    | Inr errorText \<Rightarrow>
                        Inr \<lparr>items = [],
                             search_error = Some (''GraphQL query failed: ''
                               @ decimal (int (status response)) @ '' '' @ statusText response
                               @ '' - '' @ errorText)\<rparr>)
                 else
                   (case body_json response of
                      Inl e \<Rightarrow> Inl e
                    | Inr result \<Rightarrow>
                        (case get result ''errors'' of
                           Inl e \<Rightarrow> Inl e
                         | Inr errors \<Rightarrow>
                             if truthy errors then
                               (case errors of
                                  JArr es \<Rightarrow>
                                    (case map_throwing (\<lambda>e. get e ''message'') es of
                                       Inl e \<Rightarrow> Inl e
                                     | Inr ms \<Rightarrow>
                                         Inr \<lparr>items = [],
                                              search_error = Some (''GraphQL errors: ''
                                                @ Array_join (Number_toString H) '', '' ms)\<rparr>)
                                | _ \<Rightarrow> Inl (JsError ''result.errors.map is not a function''))
                             else
                               (case or_js (or_js (opt (opt (member result ''data'') ''Content'') ''items'')
                                                  (opt (opt (member result ''data'') ''_Content'') ''items''))
                                           (JArr []) of
                                  JArr raw \<Rightarrow>
                                    (case map_throwing (transformContentItem H) raw of
                                       Inl e \<Rightarrow> Inl e
                                     | Inr transformed \<Rightarrow>
                                         Inr \<lparr>items = filter (\<lambda>item. truthy (guid item)) transformed,
                                              search_error = None\<rparr>)
                                | _ \<Rightarrow> Inl (JsError ''items.map is not a function'')))))
            (\<lambda>e. Inr \<lparr>items = [],
                       search_error = Some (message_or ''Unknown error during content search'' e)\<rparr>),
          snd call))"

section \<open>A host and a configuration for running the model\<close>

text \<open>
  The configuration of the end-to-end scenario: the secret is the base64 text of 16
  zero bytes.
\<close>

definition demo_config :: OptimizelyGraphConfig where
  "demo_config =
     \<lparr>gatewayUrl = ''https://cg.example.com'', appKey = ''ak1'', secret = ''AAAAAAAAAAAAAAAAAAAAAA==''\<rparr>"

text \<open>
  A host with a fixed clock and zero random bytes, whose network answers every request
  with the given outcome. Its URL constructor resolves the gateway's endpoint paths
  against an origin as the URL standard does and rejects any other input; its numbers
  print as integers (the examples use no others).
\<close>

definition demo_URL :: "string \<Rightarrow> string \<Rightarrow> js_exn + URL" where
  "demo_URL input base =
     (if input \<in> set [''/resources/synonyms'', ''/content/v2'', ''/api/pinned/collections'']
         \<and> base \<in> set [''https://cg.example.com'', ''https://cg.optimizely.com'']
      then Inr \<lparr>href_origin = base, pathname = input, query_string = None, searchParams = [], fragment = None\<rparr>
      else Inl (JsError ''Invalid URL''))"

definition demo_host :: "js_exn + Response \<Rightarrow> host" where
  "demo_host outcome =
     \<lparr>Date_now = 1700000000000,
      randomBytes = (\<lambda>n. replicate n 0),
      new_URL = demo_URL,
      fetch = (\<lambda>request. outcome),
      Number_toString = (\<lambda>r. decimal \<lfloor>r\<rfloor>)\<rparr>"

definition demo_response :: "nat \<Rightarrow> string \<Rightarrow> string \<Rightarrow> js_exn + jsval \<Rightarrow> js_exn + Response" where
  "demo_response code reason content parsed =
     Inr \<lparr>status = code, statusText = reason, body_text = Inr content, body_json = parsed\<rparr>"

section \<open>Properties of the locale helpers\<close>

text \<open>\<open>split\<close> never returns the empty list, so its \<open>hd\<close> and \<open>tl\<close> are those of a list with a head.\<close>

lemma split_not_Nil: "split sep s \<noteq> []"
  by (induction s) (simp_all add: Let_def)

lemma length_split: "length (split sep s) = Suc (count_list s sep)"
proof (induction s)
  case Nil
  show ?case by simp
next
  case (Cons c cs)
  have "length (tl (split sep cs)) = count_list cs sep"
    using Cons.IH by simp
  then show ?case using Cons.IH by (simp add: Let_def)
qed

lemma split_no_sep: "sep \<notin> set s \<Longrightarrow> split sep s = [s]"
  by (induction s) (auto simp: Let_def)

lemma split_append_sep: "sep \<notin> set a \<Longrightarrow> split sep (a @ sep # r) = a # split sep r"
  by (induction a) (auto simp: Let_def)

lemma replace_all_append: "replace_all x y (s @ t) = replace_all x y s @ replace_all x y t"
  by (simp add: replace_all_def)

lemma replace_all_Cons: "replace_all x y (c # t) = (if c = x then y else c) # replace_all x y t"
  by (simp add: replace_all_def)

lemma replace_all_absent: "x \<notin> set s \<Longrightarrow> replace_all x y s = s"
  by (induction s) (auto simp: replace_all_def)

lemma parts1: "sep_free a \<Longrightarrow> split (CHR ''_'') (replace_all (CHR ''-'') (CHR ''_'') a) = [a]"
  by (simp add: sep_free_def replace_all_absent split_no_sep)

lemma parts2:
  assumes "sep_free a" "sep_free b" "s = CHR ''-'' \<or> s = CHR ''_''"
  shows "split (CHR ''_'') (replace_all (CHR ''-'') (CHR ''_'') (a @ s # b)) = [a, b]"
proof -
  have "replace_all (CHR ''-'') (CHR ''_'') (a @ s # b) = a @ CHR ''_'' # b"
    using assms by (auto simp: sep_free_def replace_all_append replace_all_Cons replace_all_absent)
  then show ?thesis
    using assms by (simp add: sep_free_def split_append_sep split_no_sep)
qed

lemma parts3:
  assumes "sep_free a" "sep_free b" "sep_free c"
    "s = CHR ''-'' \<or> s = CHR ''_''" "t = CHR ''-'' \<or> t = CHR ''_''"
  shows "split (CHR ''_'') (replace_all (CHR ''-'') (CHR ''_'') (a @ s # b @ t # c)) = [a, b, c]"
proof -
  have "replace_all (CHR ''-'') (CHR ''_'') (a @ s # b @ t # c) = a @ CHR ''_'' # b @ CHR ''_'' # c"
    using assms by (auto simp: sep_free_def replace_all_append replace_all_Cons replace_all_absent)
  then show ?thesis
    using assms by (simp add: sep_free_def split_append_sep split_no_sep)
qed

text \<open>
  Claim C3. \<open>localeToSdkLocale\<close> treats \<open>-\<close> and \<open>_\<close> alike as separators (the
  hyphens are replaced first). An input of one segment is lowercased as a whole; of two
  segments, segment 0 is lowercased and segment 1 uppercased; of three, segment 0 is
  lowercased, segment 1 kept as it is and segment 2 uppercased; the segments are joined
  by \<open>_\<close>. So \<open>fr-ca\<close> gives \<open>fr_CA\<close>, \<open>zh-Hans-HK\<close> gives \<open>zh_Hans_HK\<close> and
  \<open>EN\<close> gives \<open>en\<close>.
\<close>

theorem localeToSdkLocale_segments:
  "(sep_free a \<longrightarrow> localeToSdkLocale a = toLowerCase a) \<and>
   (sep_free a \<and> sep_free b \<and> (s = CHR ''-'' \<or> s = CHR ''_'') \<longrightarrow>
      localeToSdkLocale (a @ s # b) = toLowerCase a @ ''_'' @ toUpperCase b) \<and>
   (sep_free a \<and> sep_free b \<and> sep_free c \<and> (s = CHR ''-'' \<or> s = CHR ''_'') \<and>
    (t = CHR ''-'' \<or> t = CHR ''_'') \<longrightarrow>
      localeToSdkLocale (a @ s # b @ t # c) = toLowerCase a @ ''_'' @ b @ ''_'' @ toUpperCase c) \<and>
   localeToSdkLocale ''fr-ca'' = ''fr_CA'' \<and>
   localeToSdkLocale ''zh-Hans-HK'' = ''zh_Hans_HK'' \<and>
   localeToSdkLocale ''EN'' = ''en''"
proof (intro conjI impI)
  assume "sep_free a"
  then show "localeToSdkLocale a = toLowerCase a"
    by (simp add: localeToSdkLocale_def parts1 Let_def) (simp add: sep_free_def replace_all_absent)
next
  assume "sep_free a \<and> sep_free b \<and> (s = CHR ''-'' \<or> s = CHR ''_'')"
  then have "split (CHR ''_'') (replace_all (CHR ''-'') (CHR ''_'') (a @ s # b)) = [a, b]"
    using parts2 by blast
  then show "localeToSdkLocale (a @ s # b) = toLowerCase a @ ''_'' @ toUpperCase b"
    by (simp add: localeToSdkLocale_def Let_def)
next
  assume "sep_free a \<and> sep_free b \<and> sep_free c \<and> (s = CHR ''-'' \<or> s = CHR ''_'') \<and>
    (t = CHR ''-'' \<or> t = CHR ''_'')"
  then have "split (CHR ''_'') (replace_all (CHR ''-'') (CHR ''_'') (a @ s # b @ t # c)) = [a, b, c]"
    using parts3 by blast
  then show "localeToSdkLocale (a @ s # b @ t # c) = toLowerCase a @ ''_'' @ b @ ''_'' @ toUpperCase c"
    by (simp add: localeToSdkLocale_def Let_def)
next
  show "localeToSdkLocale ''fr-ca'' = ''fr_CA''" by code_simp
  show "localeToSdkLocale ''zh-Hans-HK'' = ''zh_Hans_HK''" by code_simp
  show "localeToSdkLocale ''EN'' = ''en''" by code_simp
qed

theorem localeToSdkLocale_segments_witness:
  "localeToSdkLocale ''Nb'' = toLowerCase ''Nb'' \<and>
   localeToSdkLocale (''PT'' @ CHR ''-'' # ''br'') = toLowerCase ''PT'' @ ''_'' @ toUpperCase ''br'' \<and>
   localeToSdkLocale (''ZH'' @ CHR ''-'' # ''Hant'' @ CHR ''_'' # ''tw'')
     = toLowerCase ''ZH'' @ ''_'' @ ''Hant'' @ ''_'' @ toUpperCase ''tw''"
  using localeToSdkLocale_segments [of "''Nb''" "''br''" "CHR ''-''" "''tw''" "CHR ''_''"]
    localeToSdkLocale_segments [of "''PT''" "''br''" "CHR ''-''" "''tw''" "CHR ''_''"]
    localeToSdkLocale_segments [of "''ZH''" "''Hant''" "CHR ''-''" "''tw''" "CHR ''_''"]
  by (simp add: sep_free_def)


lemma count_replace_all:
  "count_list (replace_all (CHR ''-'') (CHR ''_'') l) (CHR ''_'')
     = count_list l (CHR ''-'') + count_list l (CHR ''_'')"
  by (induction l) (simp_all add: replace_all_def)

lemma normalizeLocale_sep_free:
  "sep_free a \<Longrightarrow> sep_free b \<Longrightarrow> normalizeLocale (a @ ''_'' @ b) = a @ ''-'' @ b"
  by (simp add: normalizeLocale_def sep_free_def replace_all_append replace_all_Cons replace_all_absent)

text \<open>
  Claim C4. \<open>normalizeLocale\<close> replaces every \<open>_\<close> by \<open>-\<close> and changes nothing
  else, so \<open>nb_NO\<close> gives \<open>nb-NO\<close>. Converting a URL locale \<open>a-b\<close> of two segments
  with \<open>a\<close> already in lower case and \<open>b\<close> already in upper case to the SDK form and
  back gives \<open>a-b\<close> again (as for \<open>fr-CA\<close>), but \<open>FR-ca\<close> does not come back: the
  two functions are not inverse to each other.
\<close>

theorem normalizeLocale_round_trip:
  "normalizeLocale l = map (\<lambda>c. if c = CHR ''_'' then CHR ''-'' else c) l \<and>
   normalizeLocale ''nb_NO'' = ''nb-NO'' \<and>
   (sep_free a \<and> sep_free b \<and> toLowerCase a = a \<and> toUpperCase b = b \<longrightarrow>
      normalizeLocale (localeToSdkLocale (a @ ''-'' @ b)) = a @ ''-'' @ b) \<and>
   normalizeLocale (localeToSdkLocale ''fr-CA'') = ''fr-CA'' \<and>
   normalizeLocale (localeToSdkLocale ''FR-ca'') \<noteq> ''FR-ca''"
proof (intro conjI impI)
  show "normalizeLocale l = map (\<lambda>c. if c = CHR ''_'' then CHR ''-'' else c) l"
    by (simp add: normalizeLocale_def replace_all_def)
  show "normalizeLocale ''nb_NO'' = ''nb-NO''" by code_simp
  show "normalizeLocale (localeToSdkLocale ''fr-CA'') = ''fr-CA''" by code_simp
  show "normalizeLocale (localeToSdkLocale ''FR-ca'') \<noteq> ''FR-ca''" by code_simp
next
  assume h: "sep_free a \<and> sep_free b \<and> toLowerCase a = a \<and> toUpperCase b = b"
  then have "split (CHR ''_'') (replace_all (CHR ''-'') (CHR ''_'') (a @ CHR ''-'' # b)) = [a, b]"
    using parts2 by blast
  then have "localeToSdkLocale (a @ ''-'' @ b) = a @ ''_'' @ b"
    using h by (simp add: localeToSdkLocale_def Let_def)
  then show "normalizeLocale (localeToSdkLocale (a @ ''-'' @ b)) = a @ ''-'' @ b"
    using h normalizeLocale_sep_free by simp
qed

theorem normalizeLocale_round_trip_witness:
  "sep_free ''de'' \<and> sep_free ''AT'' \<and> toLowerCase ''de'' = ''de'' \<and> toUpperCase ''AT'' = ''AT'' \<and>
   normalizeLocale (localeToSdkLocale (''de'' @ ''-'' @ ''AT'')) = ''de'' @ ''-'' @ ''AT''"
proof -
  have h: "sep_free ''de'' \<and> sep_free ''AT'' \<and> toLowerCase ''de'' = ''de'' \<and> toUpperCase ''AT'' = ''AT''"
    by code_simp
  show ?thesis
    using h normalizeLocale_round_trip [of _ "''de''" "''AT''"] by blast
qed

text \<open>
  Claim C10. The number of segments is one more than the number of separators in the
  input. Whenever that number is neither 2 nor 3, and so in particular for four or more
  segments (three or more separators), \<open>localeToSdkLocale\<close> returns the whole input
  with every \<open>-\<close> replaced by \<open>_\<close> and every letter lowercased: the branch of the
  single segment.
\<close>

theorem localeToSdkLocale_four_or_more:
  "(3 \<le> count_list l (CHR ''-'') + count_list l (CHR ''_'') \<longrightarrow>
      localeToSdkLocale l = toLowerCase (replace_all (CHR ''-'') (CHR ''_'') l)) \<and>
   (length (split (CHR ''_'') (replace_all (CHR ''-'') (CHR ''_'') l)) \<noteq> 2 \<and>
    length (split (CHR ''_'') (replace_all (CHR ''-'') (CHR ''_'') l)) \<noteq> 3 \<longrightarrow>
      localeToSdkLocale l = toLowerCase (replace_all (CHR ''-'') (CHR ''_'') l)) \<and>
   length (split (CHR ''_'') (replace_all (CHR ''-'') (CHR ''_'') l))
     = Suc (count_list l (CHR ''-'') + count_list l (CHR ''_''))"
  by (simp add: localeToSdkLocale_def Let_def length_split count_replace_all)

theorem localeToSdkLocale_four_or_more_witness:
  "3 \<le> count_list ''zh-Hans-HK-x_Private'' (CHR ''-'') + count_list ''zh-Hans-HK-x_Private'' (CHR ''_'') \<and>
   length (split (CHR ''_'') (replace_all (CHR ''-'') (CHR ''_'') ''zh-Hans-HK-x_Private'')) \<noteq> 2 \<and>
   length (split (CHR ''_'') (replace_all (CHR ''-'') (CHR ''_'') ''zh-Hans-HK-x_Private'')) \<noteq> 3 \<and>
   localeToSdkLocale ''zh-Hans-HK-x_Private'' = ''zh_hans_hk_x_private''"
proof -
  have h: "3 \<le> count_list ''zh-Hans-HK-x_Private'' (CHR ''-'') + count_list ''zh-Hans-HK-x_Private'' (CHR ''_'')"
    by code_simp
  have n: "length (split (CHR ''_'') (replace_all (CHR ''-'') (CHR ''_'') ''zh-Hans-HK-x_Private'')) \<noteq> 2 \<and>
     length (split (CHR ''_'') (replace_all (CHR ''-'') (CHR ''_'') ''zh-Hans-HK-x_Private'')) \<noteq> 3"
    by code_simp
  have e: "toLowerCase (replace_all (CHR ''-'') (CHR ''_'') ''zh-Hans-HK-x_Private'') = ''zh_hans_hk_x_private''"
    by code_simp
  show ?thesis
    using h n e localeToSdkLocale_four_or_more [of "''zh-Hans-HK-x_Private''"] by simp
qed

section \<open>Properties of the signer and the request dispatcher\<close>

lemma demo_clock: "decimal 1700000000000 = ''1700000000000''"
  by (simp add: decimal_def digits.simps hex_digit_def)

lemma demo_nonce: "toString_hex (replicate 16 0) = ''00000000000000000000000000000000''"
  by code_simp

lemma zero_bytes: "replicate 16 (0 :: byte) = [0, 0, 0, 0, 0, 0, 0, 0, 0, 0, 0, 0, 0, 0, 0, 0]"
  by (simp add: numeral_eq_Suc)

lemma demo_key: "Buffer_from_base64 ''AAAAAAAAAAAAAAAAAAAAAA=='' = replicate 16 0"
  unfolding zero_bytes
  by (simp add: Buffer_from_base64_def unbase64_def List.map_filter_simps Let_def)

text \<open>
  The dispatcher either fails before anything is sent, or hands exactly one request to
  \<^verbatim>\<open>fetch\<close> and settles as \<^verbatim>\<open>fetch\<close> does.
\<close>

lemma makeOptimizelyGraphRequest_cases:
  "(\<exists>e. makeOptimizelyGraphRequest H config endpoint options = (Inl e, [])) \<or>
   (\<exists>rq. makeOptimizelyGraphRequest H config endpoint options = (fetch H rq, [rq]))"
  by (simp add: makeOptimizelyGraphRequest_def createHmacAuthHeader_def Let_def split: sum.splits)

text \<open>
  Claim C1, as amended. The signed string is the concatenation, without separators, of
  the appKey, the method as the caller passed it (it is not uppercased), the path with
  its query, the timestamp in decimal, the nonce and the base64 MD5 digest of the body;
  the signature is the base64 HMAC-SHA256 of that string under the base64-decoded secret;
  the header is \<open>epi-hmac appKey:timestamp:nonce:signature\<close>.
\<close>

theorem createHmacAuthHeader_signature:
  "signatureData config m path timestamp nonce bodyMd5
     = appKey config @ m @ path @ decimal timestamp @ nonce @ bodyMd5 \<and>
   createHmacAuthHeader H config m path b =
     Inr \<lparr>authorization =
            ''epi-hmac '' @ appKey config @ '':'' @ decimal (Date_now H) @ '':''
              @ toString_hex (randomBytes H 16) @ '':''
              @ toString_base64
                  (hmac_sha256 (Buffer_from_base64 (secret config))
                     (utf8 (signatureData config m path (Date_now H)
                              (toString_hex (randomBytes H 16))
                              (toString_base64 (md5 (utf8 b))))))\<rparr>"
  by (simp add: createHmacAuthHeader_def signatureData_def Let_def)

text \<open>
  The claim as stated fails for a method in lower case: the string signed for \<open>put\<close>
  has \<open>put\<close> in it, not \<open>PUT\<close>.
\<close>

theorem createHmacAuthHeader_method_verbatim:
  "signatureData demo_config ''put'' ''/resources/synonyms'' 1700000000000
       ''00000000000000000000000000000000'' (toString_base64 (md5 (utf8 [])))
     \<noteq> appKey demo_config @ toUpperCase ''put'' @ ''/resources/synonyms'' @ decimal 1700000000000
         @ ''00000000000000000000000000000000'' @ toString_base64 (md5 (utf8 [])) \<and>
   createHmacAuthHeader (demo_host (Inl NonError)) demo_config ''put'' ''/resources/synonyms'' [] =
     Inr \<lparr>authorization =
            ''epi-hmac ak1:1700000000000:00000000000000000000000000000000:''
              @ toString_base64
                  (hmac_sha256 (replicate 16 0)
                     (utf8 (''ak1'' @ ''put'' @ ''/resources/synonyms'' @ ''1700000000000''
                              @ ''00000000000000000000000000000000''
                              @ toString_base64 (md5 (utf8 [])))))\<rparr>"
proof -
  have up: "toUpperCase ''put'' = ''PUT''"
    by code_simp
  show ?thesis
    by (simp add: createHmacAuthHeader_def signatureData_def demo_config_def demo_host_def
        demo_clock demo_nonce demo_key up Let_def)
qed

text \<open>
  Claim C2, as amended. Computing the header never fails, whatever the secret is:
  \<^verbatim>\<open>Buffer.from\<close> decodes a text that is not valid base64 too, and the header is signed
  with the bytes it gives. Building the configuration throws when the appKey or the
  secret is absent, and a configuration that is built carries the two values of the
  environment: neither is defaulted.
\<close>

theorem configuration_errors:
  "(\<exists>sig. createHmacAuthHeader H config m path b =
       Inr \<lparr>authorization =
              ''epi-hmac '' @ appKey config @ '':'' @ decimal (Date_now H) @ '':''
                @ toString_hex (randomBytes H 16) @ '':''
                @ toString_base64 (hmac_sha256 (Buffer_from_base64 (secret config)) sig)\<rparr>) \<and>
   (env ''OPTIMIZELY_GRAPH_APP_KEY'' = None \<or> env ''OPTIMIZELY_GRAPH_SECRET'' = None \<longrightarrow>
      getOptimizelyGraphConfig env =
        Inl (JsError ''Missing required environment variables: OPTIMIZELY_GRAPH_APP_KEY and OPTIMIZELY_GRAPH_SECRET'')) \<and>
   (getOptimizelyGraphConfig env = Inr c \<longrightarrow>
      env ''OPTIMIZELY_GRAPH_APP_KEY'' = Some (appKey c) \<and>
      env ''OPTIMIZELY_GRAPH_SECRET'' = Some (secret c) \<and> appKey c \<noteq> [] \<and> secret c \<noteq> [])"
proof (intro conjI impI)
  show "\<exists>sig. createHmacAuthHeader H config m path b =
       Inr \<lparr>authorization =
              ''epi-hmac '' @ appKey config @ '':'' @ decimal (Date_now H) @ '':''
                @ toString_hex (randomBytes H 16) @ '':''
                @ toString_base64 (hmac_sha256 (Buffer_from_base64 (secret config)) sig)\<rparr>"
    by (simp add: createHmacAuthHeader_def Let_def) blast
next
  assume "env ''OPTIMIZELY_GRAPH_APP_KEY'' = None \<or> env ''OPTIMIZELY_GRAPH_SECRET'' = None"
  then show "getOptimizelyGraphConfig env =
        Inl (JsError ''Missing required environment variables: OPTIMIZELY_GRAPH_APP_KEY and OPTIMIZELY_GRAPH_SECRET'')"
    by (auto simp: getOptimizelyGraphConfig_def Let_def split: option.splits)
next
  assume "getOptimizelyGraphConfig env = Inr c"
  then show "env ''OPTIMIZELY_GRAPH_APP_KEY'' = Some (appKey c)"
    and "env ''OPTIMIZELY_GRAPH_SECRET'' = Some (secret c)"
    and "appKey c \<noteq> []" and "secret c \<noteq> []"
    by (auto simp: getOptimizelyGraphConfig_def Let_def split: option.splits if_splits)
qed

theorem configuration_errors_witness:
  "getOptimizelyGraphConfig (Map.empty(''OPTIMIZELY_GRAPH_SECRET'' \<mapsto> ''AAAAAAAAAAAAAAAAAAAAAA==''))
     = Inl (JsError ''Missing required environment variables: OPTIMIZELY_GRAPH_APP_KEY and OPTIMIZELY_GRAPH_SECRET'') \<and>
   getOptimizelyGraphConfig
       (Map.empty(''OPTIMIZELY_GRAPH_SECRET'' \<mapsto> ''!!!'', ''OPTIMIZELY_GRAPH_APP_KEY'' \<mapsto> ''ak1''))
     = Inr \<lparr>gatewayUrl = ''https://cg.optimizely.com'', appKey = ''ak1'', secret = ''!!!''\<rparr> \<and>
   appKey \<lparr>gatewayUrl = ''https://cg.optimizely.com'', appKey = ''ak1'', secret = ''!!!''\<rparr> \<noteq> []"
proof -
  have built: "getOptimizelyGraphConfig
       (Map.empty(''OPTIMIZELY_GRAPH_SECRET'' \<mapsto> ''!!!'', ''OPTIMIZELY_GRAPH_APP_KEY'' \<mapsto> ''ak1''))
     = Inr \<lparr>gatewayUrl = ''https://cg.optimizely.com'', appKey = ''ak1'', secret = ''!!!''\<rparr>"
    by (simp add: getOptimizelyGraphConfig_def)
  show ?thesis
    using built
      configuration_errors [of _ _ _ _ _
        "Map.empty(''OPTIMIZELY_GRAPH_SECRET'' \<mapsto> ''AAAAAAAAAAAAAAAAAAAAAA=='')"]
      configuration_errors [of _ _ _ _ _
        "Map.empty(''OPTIMIZELY_GRAPH_SECRET'' \<mapsto> ''!!!'', ''OPTIMIZELY_GRAPH_APP_KEY'' \<mapsto> ''ak1'')"
        "\<lparr>gatewayUrl = ''https://cg.optimizely.com'', appKey = ''ak1'', secret = ''!!!''\<rparr>"]
    by simp
qed

text \<open>
  The claim as stated fails: \<open>!!!\<close> is not base64, it decodes to the empty key, and
  the header is computed and signed with that key.
\<close>

theorem createHmacAuthHeader_invalid_secret:
  "\<not> valid_base64 ''!!!'' \<and> Buffer_from_base64 ''!!!'' = [] \<and>
   createHmacAuthHeader (demo_host (Inl NonError)) (demo_config\<lparr>secret := ''!!!''\<rparr>)
       ''PUT'' ''/resources/synonyms'' [] =
     Inr \<lparr>authorization =
            ''epi-hmac ak1:1700000000000:00000000000000000000000000000000:''
              @ toString_base64
                  (hmac_sha256 []
                     (utf8 (''ak1'' @ ''PUT'' @ ''/resources/synonyms'' @ ''1700000000000''
                              @ ''00000000000000000000000000000000''
                              @ toString_base64 (md5 (utf8 [])))))\<rparr>"
proof -
  have dec: "Buffer_from_base64 ''!!!'' = []"
    by (simp add: Buffer_from_base64_def unbase64_def List.map_filter_simps Let_def)
  have inv: "\<not> valid_base64 ''!!!''"
    by (simp add: valid_base64_def dec)
  show ?thesis
    by (simp add: inv dec createHmacAuthHeader_def signatureData_def demo_config_def demo_host_def
        demo_clock demo_nonce Let_def)
qed

lemma synonyms_query:
  "urlencoded [(''synonym_slot'', ''1''), (''language_routing'', ''en'')]
     = ''synonym_slot=1&language_routing=en''"
  by code_simp

lemma searchParams_append_two:
  "searchParams u = [] \<Longrightarrow>
   searchParams_append q (searchParams_append p u) =
     u\<lparr>searchParams := [p, q],
       query_string := (if urlencoded [p, q] = [] then None else Some (urlencoded [p, q]))\<rparr>"
  by (simp add: searchParams_append_def Let_def)

text \<open>
  What the dispatcher sends and signs, for any method: the body goes out unless the
  method is \<open>GET\<close>, and the signature is computed over the body as supplied in
  either case.
\<close>

lemma makeOptimizelyGraphRequest_sent:
  assumes "new_URL H endpoint (gatewayUrl config) = Inr u"
  shows "\<exists>a. createHmacAuthHeader H config m (pathname u @ URL_search u) b
                = Inr \<lparr>authorization = a\<rparr> \<and>
     snd (makeOptimizelyGraphRequest H config endpoint
            \<lparr>method' = Some m, body = Some b, headers = None, queryParams = None\<rparr>) =
       [\<lparr>fetch_url = URL_href u, fetch_method = m,
         fetch_headers = [(''Content-Type'', ''text/plain''), (''authorization'', a)],
         fetch_body = (if m \<noteq> ''GET'' then Some b else None)\<rparr>]"
  using assms
  by (simp add: makeOptimizelyGraphRequest_def createHmacAuthHeader_def spread_def Let_def)

text \<open>
  Claim C7 at the input where the code departs from it: a \<open>GET\<close> with the body
  \<open>x\<close>. No body is attached to the request, but the signed string ends with the
  MD5 digest of \<open>x\<close>, not with that of the empty string.
\<close>

theorem makeOptimizelyGraphRequest_GET_signs_unsent_body:
  "snd (makeOptimizelyGraphRequest (demo_host (Inl NonError)) demo_config ''/api/pinned/collections''
          \<lparr>method' = Some ''GET'', body = Some ''x'', headers = None, queryParams = None\<rparr>) =
     [\<lparr>fetch_url = ''https://cg.example.com/api/pinned/collections'',
       fetch_method = ''GET'',
       fetch_headers =
         [(''Content-Type'', ''text/plain''),
          (''authorization'',
           ''epi-hmac ak1:1700000000000:00000000000000000000000000000000:''
             @ toString_base64
                 (hmac_sha256 (replicate 16 0)
                    (utf8 (''ak1'' @ ''GET'' @ ''/api/pinned/collections'' @ ''1700000000000''
                             @ ''00000000000000000000000000000000''
                             @ toString_base64 (md5 (utf8 ''x''))))))],
       fetch_body = None\<rparr>]"
  by (simp add: makeOptimizelyGraphRequest_def createHmacAuthHeader_def signatureData_def
      demo_config_def demo_host_def demo_URL_def URL_href_def URL_search_def spread_def
      demo_clock demo_nonce demo_key Let_def)

lemma uploadSynonyms_unfold:
  "uploadSynonyms H config synonyms options =
     (try_catch
        (case fst (makeOptimizelyGraphRequest H config ''/resources/synonyms''
                 \<lparr>method' = Some ''PUT'', body = Some synonyms, headers = None,
                  queryParams = Some [(''synonym_slot'', case synonymSlot options of None \<Rightarrow> ''1'' | Some s \<Rightarrow> s),
                                      (''language_routing'', case languageRouting options of None \<Rightarrow> ''standard'' | Some l \<Rightarrow> l)]\<rparr>) of
           Inl e \<Rightarrow> Inl e
         | Inr response \<Rightarrow>
             if ok response then
               Inr \<lparr>success = True,
                    message = ''Synonyms successfully uploaded to slot ''
                                @ (case synonymSlot options of None \<Rightarrow> ''1'' | Some s \<Rightarrow> s)
                                @ '' for language routing: ''
                                @ (case languageRouting options of None \<Rightarrow> ''standard'' | Some l \<Rightarrow> l),
                    error = None\<rparr>
             else
               (case body_text response of
                  Inl e \<Rightarrow> Inl e
                | Inr errorText \<Rightarrow>
                    Inr \<lparr>success = False,
                         message = ''Failed to upload synonyms'',
                         error = Some (decimal (int (status response)) @ '' ''
                                       @ statusText response @ '' - '' @ errorText)\<rparr>))
        (\<lambda>e. Inr \<lparr>success = False, message = ''Network error'',
                   error = Some (message_or ''Unknown error'' e)\<rparr>),
      snd (makeOptimizelyGraphRequest H config ''/resources/synonyms''
                 \<lparr>method' = Some ''PUT'', body = Some synonyms, headers = None,
                  queryParams = Some [(''synonym_slot'', case synonymSlot options of None \<Rightarrow> ''1'' | Some s \<Rightarrow> s),
                                      (''language_routing'', case languageRouting options of None \<Rightarrow> ''standard'' | Some l \<Rightarrow> l)]\<rparr>))"
  by (simp add: uploadSynonyms_def Let_def)

text \<open>
  Claim C8. \<open>uploadSynonyms\<close> always resolves to a result \<open>{success, message, error?}\<close>
  and never rejects. When the request it sent was answered, \<open>success\<close> is true exactly
  if the status is between 200 and 299, and \<open>error\<close> is set exactly if it is not. When
  \<^verbatim>\<open>fetch\<close> rejected, or the request could not be built, the result is
  \<open>{success: false, message: 'Network error', error}\<close> with the message of the
  exception.
\<close>

theorem uploadSynonyms_result:
  "(\<exists>r. fst (uploadSynonyms H config synonyms options) = Inr r) \<and>
   (snd (uploadSynonyms H config synonyms options) = [rq] \<and> fetch H rq = Inr response \<longrightarrow>
      (\<exists>r. fst (uploadSynonyms H config synonyms options) = Inr r \<and>
           (success r \<longleftrightarrow> 200 \<le> status response \<and> status response \<le> 299) \<and>
           (success r \<longleftrightarrow> error r = None))) \<and>
   (snd (uploadSynonyms H config synonyms options) = [rq] \<and> fetch H rq = Inl e \<longrightarrow>
      fst (uploadSynonyms H config synonyms options) =
        Inr \<lparr>success = False, message = ''Network error'',
             error = Some (message_or ''Unknown error'' e)\<rparr>) \<and>
   (snd (uploadSynonyms H config synonyms options) = [] \<longrightarrow>
      (\<exists>x. fst (uploadSynonyms H config synonyms options) =
        Inr \<lparr>success = False, message = ''Network error'',
             error = Some (message_or ''Unknown error'' x)\<rparr>))"
proof -
  let ?call = "makeOptimizelyGraphRequest H config ''/resources/synonyms''
                 \<lparr>method' = Some ''PUT'', body = Some synonyms, headers = None,
                  queryParams = Some [(''synonym_slot'', case synonymSlot options of None \<Rightarrow> ''1'' | Some s \<Rightarrow> s),
                                      (''language_routing'', case languageRouting options of None \<Rightarrow> ''standard'' | Some l \<Rightarrow> l)]\<rparr>"
  consider (unsent) x where "?call = (Inl x, [])"
    | (sent) rq' where "?call = (fetch H rq', [rq'])"
    using makeOptimizelyGraphRequest_cases by blast
  then show ?thesis
  proof cases
    case unsent
    then show ?thesis
      by (auto simp: uploadSynonyms_unfold try_catch_def)
  next
    case sent
    show ?thesis
    proof (cases "fetch H rq'")
      case (Inl x)
      with sent show ?thesis
        by (auto simp: uploadSynonyms_unfold try_catch_def)
    next
      case (Inr resp)
      with sent show ?thesis
        by (auto simp: uploadSynonyms_unfold try_catch_def ok_def split: sum.splits)
    qed
  qed
qed

lemma demo_upload_sent:
  "\<exists>rq. snd (uploadSynonyms (demo_host outcome) demo_config synonyms options) = [rq] \<and>
        fetch (demo_host outcome) rq = outcome"
  by (simp add: uploadSynonyms_unfold makeOptimizelyGraphRequest_def createHmacAuthHeader_def
      demo_config_def demo_host_def demo_URL_def Let_def)

theorem uploadSynonyms_result_witness:
  "(\<exists>r. fst (uploadSynonyms (demo_host (demo_response 204 ''No Content'' [] (Inl NonError)))
               demo_config ''laptop, pc'' \<lparr>synonymSlot = None, languageRouting = None\<rparr>) = Inr r \<and>
        success r \<and> error r = None) \<and>
   (\<exists>r. fst (uploadSynonyms (demo_host (demo_response 503 ''Service Unavailable'' ''down'' (Inl NonError)))
               demo_config ''laptop, pc'' \<lparr>synonymSlot = None, languageRouting = None\<rparr>) = Inr r \<and>
        \<not> success r \<and> error r \<noteq> None) \<and>
   fst (uploadSynonyms (demo_host (Inl (JsError ''fetch failed'')))
          demo_config ''laptop, pc'' \<lparr>synonymSlot = None, languageRouting = None\<rparr>)
     = Inr \<lparr>success = False, message = ''Network error'', error = Some ''fetch failed''\<rparr> \<and>
   snd (uploadSynonyms (demo_host (Inl NonError))
          (demo_config\<lparr>gatewayUrl := ''not a url''\<rparr>) ''laptop, pc''
          \<lparr>synonymSlot = None, languageRouting = None\<rparr>) = [] \<and>
   (\<exists>x. fst (uploadSynonyms (demo_host (Inl NonError))
          (demo_config\<lparr>gatewayUrl := ''not a url''\<rparr>) ''laptop, pc''
          \<lparr>synonymSlot = None, languageRouting = None\<rparr>)
     = Inr \<lparr>success = False, message = ''Network error'',
            error = Some (message_or ''Unknown error'' x)\<rparr>)"
proof -
  let ?opts = "\<lparr>synonymSlot = None, languageRouting = None\<rparr>"
  let ?ok = "demo_response 204 ''No Content'' [] (Inl NonError)"
  let ?down = "demo_response 503 ''Service Unavailable'' ''down'' (Inl NonError)"
  let ?lost = "Inl (JsError ''fetch failed'') :: js_exn + Response"
  obtain rq1 where rq1: "snd (uploadSynonyms (demo_host ?ok) demo_config ''laptop, pc'' ?opts) = [rq1]"
      "fetch (demo_host ?ok) rq1 = ?ok"
    using demo_upload_sent by blast
  have answered: "\<exists>r. fst (uploadSynonyms (demo_host ?ok) demo_config ''laptop, pc'' ?opts) = Inr r \<and>
        success r \<and> error r = None"
    using rq1 uploadSynonyms_result [where H = "demo_host ?ok" and config = demo_config
        and synonyms = "''laptop, pc''" and options = ?opts and rq = rq1
        and response = "\<lparr>status = 204, statusText = ''No Content'', body_text = Inr [],
                          body_json = Inl NonError\<rparr>",
        THEN conjunct2, THEN conjunct1]
    by (auto simp: demo_response_def)
  obtain rq2 where rq2: "snd (uploadSynonyms (demo_host ?down) demo_config ''laptop, pc'' ?opts) = [rq2]"
      "fetch (demo_host ?down) rq2 = ?down"
    using demo_upload_sent by blast
  have refused: "\<exists>r. fst (uploadSynonyms (demo_host ?down) demo_config ''laptop, pc'' ?opts) = Inr r \<and>
        \<not> success r \<and> error r \<noteq> None"
    using rq2 uploadSynonyms_result [where H = "demo_host ?down" and config = demo_config
        and synonyms = "''laptop, pc''" and options = ?opts and rq = rq2
        and response = "\<lparr>status = 503, statusText = ''Service Unavailable'', body_text = Inr ''down'',
                          body_json = Inl NonError\<rparr>",
        THEN conjunct2, THEN conjunct1]
    by (auto simp: demo_response_def)
  obtain rq3 where rq3: "snd (uploadSynonyms (demo_host ?lost) demo_config ''laptop, pc'' ?opts) = [rq3]"
      "fetch (demo_host ?lost) rq3 = ?lost"
    using demo_upload_sent by blast
  have rejected: "fst (uploadSynonyms (demo_host ?lost) demo_config ''laptop, pc'' ?opts)
     = Inr \<lparr>success = False, message = ''Network error'', error = Some ''fetch failed''\<rparr>"
    using rq3 uploadSynonyms_result [where H = "demo_host ?lost" and config = demo_config
        and synonyms = "''laptop, pc''" and options = ?opts and rq = rq3 and e = "JsError ''fetch failed''",
        THEN conjunct2, THEN conjunct2, THEN conjunct1]
    by (simp add: message_or_def)
  have unsent: "snd (uploadSynonyms (demo_host (Inl NonError))
          (demo_config\<lparr>gatewayUrl := ''not a url''\<rparr>) ''laptop, pc'' ?opts) = []"
    by (simp add: uploadSynonyms_unfold makeOptimizelyGraphRequest_def
        demo_config_def demo_host_def demo_URL_def Let_def)
  have unbuilt: "\<exists>x. fst (uploadSynonyms (demo_host (Inl NonError))
          (demo_config\<lparr>gatewayUrl := ''not a url''\<rparr>) ''laptop, pc'' ?opts)
     = Inr \<lparr>success = False, message = ''Network error'',
            error = Some (message_or ''Unknown error'' x)\<rparr>"
    using unsent uploadSynonyms_result [where H = "demo_host (Inl NonError)"
        and config = "demo_config\<lparr>gatewayUrl := ''not a url''\<rparr>"
        and synonyms = "''laptop, pc''" and options = ?opts,
        THEN conjunct2, THEN conjunct2, THEN conjunct2]
    by blast
  show ?thesis
    by (rule conjI [OF answered conjI [OF refused conjI [OF rejected conjI [OF unsent unbuilt]]]])
qed

text \<open>
  Claim C9. Whenever the gateway URL parses (the URL constructor resolving the endpoint
  to the path \<open>/resources/synonyms\<close> with no query), \<open>uploadSynonyms\<close> with slot
  \<open>1\<close> and language routing \<open>en\<close> hands exactly one request to \<^verbatim>\<open>fetch\<close>, for every
  synonym text, the empty one included: a \<open>PUT\<close> to
  \<open>/resources/synonyms?synonym_slot=1&language_routing=en\<close>, whose body is the synonym
  text and whose \<open>authorization\<close> header is the \<open>epi-hmac\<close> header computed for that
  method, that path with query and that body.
\<close>

theorem uploadSynonyms_issues_PUT:
  assumes "new_URL H ''/resources/synonyms'' (gatewayUrl config) = Inr u"
    and "pathname u = ''/resources/synonyms''"
    and "searchParams u = []"
  shows "\<exists>a. createHmacAuthHeader H config ''PUT''
                ''/resources/synonyms?synonym_slot=1&language_routing=en'' synonyms
              = Inr \<lparr>authorization = a\<rparr> \<and>
             take 9 a = ''epi-hmac '' \<and>
             snd (uploadSynonyms H config synonyms
                    \<lparr>synonymSlot = Some ''1'', languageRouting = Some ''en''\<rparr>) =
               [\<lparr>fetch_url = href_origin u
                               @ ''/resources/synonyms?synonym_slot=1&language_routing=en''
                               @ (case fragment u of None \<Rightarrow> [] | Some f \<Rightarrow> CHR ''#'' # f),
                 fetch_method = ''PUT'',
                 fetch_headers = [(''Content-Type'', ''text/plain''), (''authorization'', a)],
                 fetch_body = Some synonyms\<rparr>]"
  using assms
  by (simp add: uploadSynonyms_unfold makeOptimizelyGraphRequest_def createHmacAuthHeader_def
      searchParams_append_two synonyms_query URL_href_def URL_search_def spread_def Let_def)

theorem uploadSynonyms_issues_PUT_witness:
  "\<exists>a. createHmacAuthHeader (demo_host (Inl NonError)) demo_config ''PUT''
          ''/resources/synonyms?synonym_slot=1&language_routing=en'' []
        = Inr \<lparr>authorization = a\<rparr> \<and>
       take 9 a = ''epi-hmac '' \<and>
       snd (uploadSynonyms (demo_host (Inl NonError)) demo_config []
              \<lparr>synonymSlot = Some ''1'', languageRouting = Some ''en''\<rparr>) =
         [\<lparr>fetch_url = ''https://cg.example.com/resources/synonyms?synonym_slot=1&language_routing=en'',
           fetch_method = ''PUT'',
           fetch_headers = [(''Content-Type'', ''text/plain''), (''authorization'', a)],
           fetch_body = Some []\<rparr>]"
proof -
  have parsed: "new_URL (demo_host (Inl NonError)) ''/resources/synonyms'' (gatewayUrl demo_config)
      = Inr \<lparr>href_origin = ''https://cg.example.com'', pathname = ''/resources/synonyms'',
             query_string = None, searchParams = [], fragment = None\<rparr>"
    by (simp add: demo_host_def demo_config_def demo_URL_def)
  show ?thesis
    using uploadSynonyms_issues_PUT [OF parsed, of "[]"] by simp
qed

section \<open>Properties of the content search\<close>

lemma searchContent_unfold:
  "searchContent H config q variables =
     (try_catch
        (case fst (makeGraphQLRequest H config q variables) of
           Inl e \<Rightarrow> Inl e
         | Inr response \<Rightarrow>
             if \<not> ok response then
               (case body_text response of
                  Inl e \<Rightarrow> Inl e
                | Inr errorText \<Rightarrow>
                    Inr \<lparr>items = [],
                         search_error = Some (''GraphQL query failed: ''
                           @ decimal (int (status response)) @ '' '' @ statusText response
                           @ '' - '' @ errorText)\<rparr>)
             else
               (case body_json response of
                  Inl e \<Rightarrow> Inl e
                | Inr result \<Rightarrow>
                    (case get result ''errors'' of
                       Inl e \<Rightarrow> Inl e
                     | Inr errors \<Rightarrow>
                         if truthy errors then
                           (case errors of
                              JArr es \<Rightarrow>
                                (case map_throwing (\<lambda>e. get e ''message'') es of
                                   Inl e \<Rightarrow> Inl e
                                 | Inr ms \<Rightarrow>
                                     Inr \<lparr>items = [],
                                          search_error = Some (''GraphQL errors: ''
                                            @ Array_join (Number_toString H) '', '' ms)\<rparr>)
                            | _ \<Rightarrow> Inl (JsError ''result.errors.map is not a function''))
                         else
                           (case or_js (or_js (opt (opt (member result ''data'') ''Content'') ''items'')
                                              (opt (opt (member result ''data'') ''_Content'') ''items''))
                                       (JArr []) of
                              JArr raw \<Rightarrow>
                                (case map_throwing (transformContentItem H) raw of
                                   Inl e \<Rightarrow> Inl e
                                 | Inr transformed \<Rightarrow>
                                     Inr \<lparr>items = filter (\<lambda>item. truthy (guid item)) transformed,
                                          search_error = None\<rparr>)
                            | _ \<Rightarrow> Inl (JsError ''items.map is not a function'')))))
        (\<lambda>e. Inr \<lparr>items = [],
                   search_error = Some (message_or ''Unknown error during content search'' e)\<rparr>),
      snd (makeGraphQLRequest H config q variables))"
  by (simp add: searchContent_def Let_def)

lemma try_catch_total:
  "\<exists>r. try_catch c (\<lambda>e. Inr (h e)) = Inr r"
  by (cases c) (simp_all add: try_catch_def)

lemma map_throwing_get_Inl:
  "map_throwing (\<lambda>e. get e k) es = Inl x \<Longrightarrow> \<exists>v. x = cannot_read v k"
proof (induction es)
  case Nil
  then show ?case by simp
next
  case (Cons e es)
  then show ?case
    by (auto simp: get_def split: sum.splits if_splits)
qed

lemma cannot_read_message: "message_or fallback (cannot_read v k) \<noteq> []"
  by (simp add: cannot_read_def message_or_def)

lemma map_throwing_total:
  "\<forall>x \<in> set xs. \<exists>y. f x = Inr y \<Longrightarrow> map_throwing f xs = Inr (map (\<lambda>x. projr (f x)) xs)"
  by (induction xs) (auto split: sum.splits)

lemma transformContentItem_total:
  "\<not> nullish item \<Longrightarrow> \<exists>t. transformContentItem H item = Inr t"
  by (simp add: transformContentItem_def get_def Let_def)

lemma demo_fetch:
  "fst (makeGraphQLRequest (demo_host outcome) demo_config q variables) = outcome"
  by (simp add: makeGraphQLRequest_def makeOptimizelyGraphRequest_def createHmacAuthHeader_def
      demo_host_def demo_config_def demo_URL_def Let_def)

text \<open>
  A successful search: the response is OK, its JSON has nothing truthy under
  \<open>errors\<close>, and the raw list holds no null.
\<close>

lemma searchContent_success:
  assumes "fst (makeGraphQLRequest H config q variables) = Inr response"
    and "200 \<le> status response \<and> status response \<le> 299"
    and "body_json response = Inr result" and "\<not> nullish result"
    and "\<not> truthy (member result ''errors'')"
    and "or_js (or_js (opt (opt (member result ''data'') ''Content'') ''items'')
                 (opt (opt (member result ''data'') ''_Content'') ''items''))
          (JArr []) = JArr raw"
    and "\<forall>item \<in> set raw. \<not> nullish item"
  shows "fst (searchContent H config q variables) =
        Inr \<lparr>items = filter (\<lambda>i. truthy (guid i)) (map (\<lambda>item. projr (transformContentItem H item)) raw),
             search_error = None\<rparr>"
proof -
  have "map_throwing (transformContentItem H) raw
      = Inr (map (\<lambda>item. projr (transformContentItem H item)) raw)"
    using assms(7) map_throwing_total [of raw "transformContentItem H"] transformContentItem_total
    by blast
  with assms show ?thesis
    by (simp add: searchContent_unfold try_catch_def ok_def get_def)
qed

text \<open>
  Claim C5. \<open>searchContent\<close> always resolves and never rejects. For a response whose
  status is not between 200 and 299 (its body read), and for a response with such a
  status whose JSON is an object with an \<open>errors\<close> array, it returns no items and a
  non-empty error text. Otherwise (the JSON has nothing truthy under \<open>errors\<close>) the
  raw list is \<open>data.Content.items\<close> if that is truthy, else \<open>data._Content.items\<close>
  if that is truthy, else the empty list; its items are normalised and those with an
  identifier returned, with no error.
\<close>

theorem searchContent_never_throws:
  "(\<exists>r. fst (searchContent H config q variables) = Inr r) \<and>
   (fst (makeGraphQLRequest H config q variables) = Inr response \<and>
    \<not> (200 \<le> status response \<and> status response \<le> 299) \<and> body_text response = Inr t \<longrightarrow>
      fst (searchContent H config q variables) =
        Inr \<lparr>items = [],
             search_error = Some (''GraphQL query failed: '' @ decimal (int (status response)) @ '' ''
                                  @ statusText response @ '' - '' @ t)\<rparr>) \<and>
   (fst (makeGraphQLRequest H config q variables) = Inr response \<and>
    200 \<le> status response \<and> status response \<le> 299 \<and>
    body_json response = Inr (JObj kvs) \<and> map_of kvs ''errors'' = Some (JArr es) \<longrightarrow>
      (\<exists>msg. fst (searchContent H config q variables) = Inr \<lparr>items = [], search_error = Some msg\<rparr>
             \<and> msg \<noteq> [])) \<and>
   (fst (makeGraphQLRequest H config q variables) = Inr response \<and>
    200 \<le> status response \<and> status response \<le> 299 \<and>
    body_json response = Inr result \<and> \<not> nullish result \<and> \<not> truthy (member result ''errors'') \<and>
    or_js (or_js (opt (opt (member result ''data'') ''Content'') ''items'')
                 (opt (opt (member result ''data'') ''_Content'') ''items''))
          (JArr []) = JArr raw \<and>
    (\<forall>item \<in> set raw. \<not> nullish item) \<longrightarrow>
      fst (searchContent H config q variables) =
        Inr \<lparr>items = filter (\<lambda>i. truthy (guid i)) (map (\<lambda>item. projr (transformContentItem H item)) raw),
             search_error = None\<rparr>)"
proof (intro conjI impI)
  show "\<exists>r. fst (searchContent H config q variables) = Inr r"
    by (simp add: searchContent_unfold try_catch_total)
next
  assume "fst (makeGraphQLRequest H config q variables) = Inr response \<and>
    \<not> (200 \<le> status response \<and> status response \<le> 299) \<and> body_text response = Inr t"
  then show "fst (searchContent H config q variables) =
        Inr \<lparr>items = [],
             search_error = Some (''GraphQL query failed: '' @ decimal (int (status response)) @ '' ''
                                  @ statusText response @ '' - '' @ t)\<rparr>"
    by (simp add: searchContent_unfold try_catch_def ok_def)
next
  assume h: "fst (makeGraphQLRequest H config q variables) = Inr response \<and>
    200 \<le> status response \<and> status response \<le> 299 \<and>
    body_json response = Inr (JObj kvs) \<and> map_of kvs ''errors'' = Some (JArr es)"
  show "\<exists>msg. fst (searchContent H config q variables) = Inr \<lparr>items = [], search_error = Some msg\<rparr>
             \<and> msg \<noteq> []"
  proof (cases "map_throwing (\<lambda>e. get e ''message'') es")
    case (Inl x)
    then obtain v where "x = cannot_read v ''message''"
      using map_throwing_get_Inl by blast
    with Inl h show ?thesis
      by (simp add: searchContent_unfold try_catch_def ok_def get_def nullish_def cannot_read_message)
  next
    case (Inr ms)
    with h show ?thesis
      by (simp add: searchContent_unfold try_catch_def ok_def get_def nullish_def)
  qed
next
  assume h: "fst (makeGraphQLRequest H config q variables) = Inr response \<and>
    200 \<le> status response \<and> status response \<le> 299 \<and>
    body_json response = Inr result \<and> \<not> nullish result \<and> \<not> truthy (member result ''errors'') \<and>
    or_js (or_js (opt (opt (member result ''data'') ''Content'') ''items'')
                 (opt (opt (member result ''data'') ''_Content'') ''items''))
          (JArr []) = JArr raw \<and>
    (\<forall>item \<in> set raw. \<not> nullish item)"
  then show "fst (searchContent H config q variables) =
        Inr \<lparr>items = filter (\<lambda>i. truthy (guid i)) (map (\<lambda>item. projr (transformContentItem H item)) raw),
             search_error = None\<rparr>"
    using searchContent_success by blast
qed

lemma demo_status: "decimal 500 = ''500''"
  by (simp add: decimal_def digits.simps hex_digit_def)

theorem searchContent_never_throws_witness:
  "fst (searchContent (demo_host (demo_response 500 ''Internal Server Error'' ''boom'' (Inl NonError)))
          demo_config ''query'' JUndefined)
     = Inr \<lparr>items = [], search_error = Some ''GraphQL query failed: 500 Internal Server Error - boom''\<rparr> \<and>
   (\<exists>msg. fst (searchContent
                 (demo_host (demo_response 200 ''OK'' []
                    (Inr (JObj [(''errors'', JArr [JObj [(''message'', JStr ''Syntax Error'')]])]))))
                 demo_config ''query'' JUndefined)
            = Inr \<lparr>items = [], search_error = Some msg\<rparr> \<and> msg \<noteq> []) \<and>
   fst (searchContent
          (demo_host (demo_response 200 ''OK'' []
             (Inr (JObj [(''data'', JObj [(''_Content'', JObj [(''items'',
                JArr [JObj [(''_metadata'', JObj [(''key'', JStr ''k1''), (''displayName'', JStr ''Home'')])],
                      JObj [(''Name'', JStr ''no identifier'')]])])])]))))
          demo_config ''query'' JUndefined)
     = Inr \<lparr>items = [\<lparr>guid = JStr ''k1'', name = JStr ''Home'', contentType = JStr ''Unknown'',
                       item_status = JUndefined, language = JStr ''Unknown'', url = JUndefined,
                       score = JUndefined, modified = JUndefined, item_id = JUndefined\<rparr>],
            search_error = None\<rparr>"
proof (intro conjI)
  show "fst (searchContent (demo_host (demo_response 500 ''Internal Server Error'' ''boom'' (Inl NonError)))
          demo_config ''query'' JUndefined)
     = Inr \<lparr>items = [], search_error = Some ''GraphQL query failed: 500 Internal Server Error - boom''\<rparr>"
    using searchContent_never_throws
      [of "demo_host (demo_response 500 ''Internal Server Error'' ''boom'' (Inl NonError))"
          demo_config "''query''" JUndefined
          "\<lparr>status = 500, statusText = ''Internal Server Error'', body_text = Inr ''boom'',
            body_json = Inl NonError\<rparr>" "''boom''"]
    by (simp add: demo_fetch demo_response_def demo_status)
next
  show "\<exists>msg. fst (searchContent
                 (demo_host (demo_response 200 ''OK'' []
                    (Inr (JObj [(''errors'', JArr [JObj [(''message'', JStr ''Syntax Error'')]])]))))
                 demo_config ''query'' JUndefined)
            = Inr \<lparr>items = [], search_error = Some msg\<rparr> \<and> msg \<noteq> []"
    using searchContent_never_throws
      [of "demo_host (demo_response 200 ''OK'' []
                    (Inr (JObj [(''errors'', JArr [JObj [(''message'', JStr ''Syntax Error'')]])])))"
          demo_config "''query''" JUndefined
          "\<lparr>status = 200, statusText = ''OK'', body_text = Inr [],
            body_json = Inr (JObj [(''errors'', JArr [JObj [(''message'', JStr ''Syntax Error'')]])])\<rparr>"
          _ "[(''errors'', JArr [JObj [(''message'', JStr ''Syntax Error'')]])]"
          "[JObj [(''message'', JStr ''Syntax Error'')]]"]
    by (simp add: demo_fetch demo_response_def)
next
  let ?result = "JObj [(''data'', JObj [(''_Content'', JObj [(''items'',
                JArr [JObj [(''_metadata'', JObj [(''key'', JStr ''k1''), (''displayName'', JStr ''Home'')])],
                      JObj [(''Name'', JStr ''no identifier'')]])])])]"
  let ?raw = "[JObj [(''_metadata'', JObj [(''key'', JStr ''k1''), (''displayName'', JStr ''Home'')])],
               JObj [(''Name'', JStr ''no identifier'')]]"
  have shape: "or_js (or_js (opt (opt (member ?result ''data'') ''Content'') ''items'')
                 (opt (opt (member ?result ''data'') ''_Content'') ''items''))
          (JArr []) = JArr ?raw"
    by (simp add: or_js_def opt_def nullish_def)
  have run: "fst (searchContent (demo_host (demo_response 200 ''OK'' [] (Inr ?result)))
          demo_config ''query'' JUndefined) =
        Inr \<lparr>items = filter (\<lambda>i. truthy (guid i))
                 (map (\<lambda>item. projr (transformContentItem
                         (demo_host (demo_response 200 ''OK'' [] (Inr ?result))) item)) ?raw),
             search_error = None\<rparr>"
    using shape searchContent_never_throws
      [of "demo_host (demo_response 200 ''OK'' [] (Inr ?result))" demo_config "''query''" JUndefined
          "\<lparr>status = 200, statusText = ''OK'', body_text = Inr [], body_json = Inr ?result\<rparr>"
          _ _ _ ?result ?raw]
    by (simp add: demo_fetch demo_response_def nullish_def)
  show "fst (searchContent (demo_host (demo_response 200 ''OK'' [] (Inr ?result)))
          demo_config ''query'' JUndefined)
     = Inr \<lparr>items = [\<lparr>guid = JStr ''k1'', name = JStr ''Home'', contentType = JStr ''Unknown'',
                       item_status = JUndefined, language = JStr ''Unknown'', url = JUndefined,
                       score = JUndefined, modified = JUndefined, item_id = JUndefined\<rparr>],
            search_error = None\<rparr>"
    unfolding run
    by (simp add: transformContentItem_def get_def opt_def nullish_def or_js_def Let_def)
qed

text \<open>
  Claim C6. For an item that is not null or undefined, \<open>transformContentItem\<close> takes as
  identifier \<open>_metadata.key\<close> if that is truthy, else \<open>_id\<close> if that is truthy, else
  \<open>ContentLink.GuidValue\<close>; and as name \<open>Name\<close>, else \<open>PageName\<close>, else
  \<open>_metadata.displayName\<close>, else the text \<open>Untitled\<close>. Every item \<open>searchContent\<close>
  returns has a truthy identifier, and in a successful search the items returned are
  exactly the normalised items with a truthy identifier, in order.
\<close>

theorem transformContentItem_identifier:
  "(\<not> nullish item \<longrightarrow>
      (\<exists>t. transformContentItem H item = Inr t \<and>
           guid t = (if truthy (opt (member item ''_metadata'') ''key'')
                       then opt (member item ''_metadata'') ''key''
                     else if truthy (member item ''_id'') then member item ''_id''
                     else opt (member item ''ContentLink'') ''GuidValue'') \<and>
           name t = (if truthy (member item ''Name'') then member item ''Name''
                     else if truthy (member item ''PageName'') then member item ''PageName''
                     else if truthy (opt (member item ''_metadata'') ''displayName'')
                       then opt (member item ''_metadata'') ''displayName''
                     else JStr ''Untitled''))) \<and>
   (fst (searchContent H config q variables) = Inr r \<longrightarrow> (\<forall>t \<in> set (items r). truthy (guid t))) \<and>
   (fst (makeGraphQLRequest H config q variables) = Inr response \<and>
    200 \<le> status response \<and> status response \<le> 299 \<and>
    body_json response = Inr result \<and> \<not> nullish result \<and> \<not> truthy (member result ''errors'') \<and>
    or_js (or_js (opt (opt (member result ''data'') ''Content'') ''items'')
                 (opt (opt (member result ''data'') ''_Content'') ''items''))
          (JArr []) = JArr raw \<and>
    (\<forall>item \<in> set raw. \<not> nullish item) \<longrightarrow>
      fst (searchContent H config q variables) =
        Inr \<lparr>items = filter (\<lambda>t. truthy (guid t)) (map (\<lambda>item. projr (transformContentItem H item)) raw),
             search_error = None\<rparr>)"
proof (intro conjI impI)
  assume "\<not> nullish item"
  then show "\<exists>t. transformContentItem H item = Inr t \<and>
           guid t = (if truthy (opt (member item ''_metadata'') ''key'')
                       then opt (member item ''_metadata'') ''key''
                     else if truthy (member item ''_id'') then member item ''_id''
                     else opt (member item ''ContentLink'') ''GuidValue'') \<and>
           name t = (if truthy (member item ''Name'') then member item ''Name''
                     else if truthy (member item ''PageName'') then member item ''PageName''
                     else if truthy (opt (member item ''_metadata'') ''displayName'')
                       then opt (member item ''_metadata'') ''displayName''
                     else JStr ''Untitled'')"
    by (simp add: transformContentItem_def get_def or_js_def Let_def)
next
  assume "fst (searchContent H config q variables) = Inr r"
  then show "\<forall>t \<in> set (items r). truthy (guid t)"
    by (auto simp: searchContent_unfold try_catch_def split: sum.splits if_splits jsval.splits)
next
  assume "fst (makeGraphQLRequest H config q variables) = Inr response \<and>
    200 \<le> status response \<and> status response \<le> 299 \<and>
    body_json response = Inr result \<and> \<not> nullish result \<and> \<not> truthy (member result ''errors'') \<and>
    or_js (or_js (opt (opt (member result ''data'') ''Content'') ''items'')
                 (opt (opt (member result ''data'') ''_Content'') ''items''))
          (JArr []) = JArr raw \<and>
    (\<forall>item \<in> set raw. \<not> nullish item)"
  then show "fst (searchContent H config q variables) =
        Inr \<lparr>items = filter (\<lambda>t. truthy (guid t)) (map (\<lambda>item. projr (transformContentItem H item)) raw),
             search_error = None\<rparr>"
    using searchContent_success by blast
qed

theorem transformContentItem_identifier_witness:
  "(\<exists>t. transformContentItem (demo_host (Inl NonError))
          (JObj [(''ContentLink'', JObj [(''GuidValue'', JStr ''g2'')]), (''PageName'', JStr ''Start'')])
        = Inr t \<and> guid t = JStr ''g2'' \<and> name t = JStr ''Start'') \<and>
   fst (searchContent
          (demo_host (demo_response 200 ''OK'' []
             (Inr (JObj [(''data'', JObj [(''Content'', JObj [(''items'',
                JArr [JObj [(''_metadata'', JObj [(''key'', JStr ''k1'')])],
                      JObj [(''ContentLink'', JObj [(''GuidValue'', JStr ''g2'')]), (''PageName'', JStr ''Start'')],
                      JObj [(''Name'', JStr ''neither'')]])])])]))))
          demo_config ''query'' JUndefined)
     = Inr \<lparr>items = [\<lparr>guid = JStr ''k1'', name = JStr ''Untitled'', contentType = JStr ''Unknown'',
                       item_status = JUndefined, language = JStr ''Unknown'', url = JUndefined,
                       score = JUndefined, modified = JUndefined, item_id = JUndefined\<rparr>,
                     \<lparr>guid = JStr ''g2'', name = JStr ''Start'', contentType = JStr ''Unknown'',
                       item_status = JUndefined, language = JStr ''Unknown'', url = JUndefined,
                       score = JUndefined, modified = JUndefined, item_id = JUndefined\<rparr>],
            search_error = None\<rparr> \<and>
   list_all (\<lambda>t. truthy (guid t))
     [\<lparr>guid = JStr ''k1'', name = JStr ''Untitled'', contentType = JStr ''Unknown'',
       item_status = JUndefined, language = JStr ''Unknown'', url = JUndefined,
       score = JUndefined, modified = JUndefined, item_id = JUndefined\<rparr>,
      \<lparr>guid = JStr ''g2'', name = JStr ''Start'', contentType = JStr ''Unknown'',
       item_status = JUndefined, language = JStr ''Unknown'', url = JUndefined,
       score = JUndefined, modified = JUndefined, item_id = JUndefined\<rparr>]"
proof -
  let ?link = "JObj [(''ContentLink'', JObj [(''GuidValue'', JStr ''g2'')]), (''PageName'', JStr ''Start'')]"
  let ?raw = "[JObj [(''_metadata'', JObj [(''key'', JStr ''k1'')])], ?link, JObj [(''Name'', JStr ''neither'')]]"
  let ?result = "JObj [(''data'', JObj [(''Content'', JObj [(''items'', JArr ?raw)])])]"
  let ?H = "demo_host (demo_response 200 ''OK'' [] (Inr ?result))"
  let ?found = "[\<lparr>guid = JStr ''k1'', name = JStr ''Untitled'', contentType = JStr ''Unknown'',
       item_status = JUndefined, language = JStr ''Unknown'', url = JUndefined,
       score = JUndefined, modified = JUndefined, item_id = JUndefined\<rparr>,
      \<lparr>guid = JStr ''g2'', name = JStr ''Start'', contentType = JStr ''Unknown'',
       item_status = JUndefined, language = JStr ''Unknown'', url = JUndefined,
       score = JUndefined, modified = JUndefined, item_id = JUndefined\<rparr>]"
  have one: "\<exists>t. transformContentItem (demo_host (Inl NonError)) ?link = Inr t \<and>
      guid t = JStr ''g2'' \<and> name t = JStr ''Start''"
    using transformContentItem_identifier
      [where item = ?link and H = "demo_host (Inl NonError)", THEN conjunct1]
    by (simp add: nullish_def opt_def)
  have shape: "or_js (or_js (opt (opt (member ?result ''data'') ''Content'') ''items'')
                 (opt (opt (member ?result ''data'') ''_Content'') ''items''))
          (JArr []) = JArr ?raw"
    by (simp add: or_js_def opt_def nullish_def)
  have "fst (searchContent ?H demo_config ''query'' JUndefined) =
        Inr \<lparr>items = filter (\<lambda>t. truthy (guid t)) (map (\<lambda>item. projr (transformContentItem ?H item)) ?raw),
             search_error = None\<rparr>"
    using shape transformContentItem_identifier
      [where H = ?H and config = demo_config and q = "''query''" and variables = JUndefined
         and response = "\<lparr>status = 200, statusText = ''OK'', body_text = Inr [], body_json = Inr ?result\<rparr>"
         and result = ?result and raw = ?raw, THEN conjunct2, THEN conjunct2]
    by (simp add: demo_fetch demo_response_def nullish_def)
  then have run: "fst (searchContent ?H demo_config ''query'' JUndefined) =
        Inr \<lparr>items = ?found, search_error = None\<rparr>"
    by (simp add: transformContentItem_def get_def opt_def nullish_def or_js_def Let_def)
  have "\<forall>t \<in> set (items \<lparr>items = ?found, search_error = None\<rparr>). truthy (guid t)"
    using transformContentItem_identifier
      [where H = ?H and config = demo_config and q = "''query''" and variables = JUndefined
         and r = "\<lparr>items = ?found, search_error = None\<rparr>", THEN conjunct2, THEN conjunct1, THEN mp, OF run] .
  then have all: "list_all (\<lambda>t. truthy (guid t)) ?found"
    by (simp add: list_all_iff)
  show ?thesis
    by (rule conjI [OF one conjI [OF run all]])
qed

end
